theory Spec2Isabelle
  imports Complex_Main "HOL-Library.List_Lexorder" "HOL-Library.Char_ord"
begin

section \<open>Dates\<close>

text \<open>
  A \<^verbatim>\<open>datetime.date\<close> is modelled by its proleptic Gregorian ordinal
  (\<^verbatim>\<open>date.toordinal()\<close>), so \<^verbatim>\<open>d + timedelta(days=k)\<close> is \<open>d + k\<close> and
  \<^verbatim>\<open>(a - b).days\<close> is \<open>a - b\<close>. Ordinal 1 is Monday 0001-01-01, hence
  \<^verbatim>\<open>date.weekday()\<close> (0 = Monday, 6 = Sunday) is \<open>(d + 6) mod 7\<close>, which is
  how CPython computes it. PostgreSQL's \<^verbatim>\<open>extract('dow' ...)\<close> numbers the days
  0 = Sunday to 6 = Saturday.
\<close>

type_synonym date = int

definition weekday :: "date \<Rightarrow> int" where
  "weekday d = (d + 6) mod 7"

definition pg_dow :: "date \<Rightarrow> int" where
  "pg_dow d = d mod 7"

section \<open>Calendar: \<^verbatim>\<open>JapaneseCalendar\<close> (holidays_jp.py)\<close>

text \<open>
  The holiday table comes from the external \<^verbatim>\<open>holidays\<close> package; every function
  below takes the membership test \<^verbatim>\<open>target_date in self.holidays_jp\<close> as the
  parameter \<open>is_holiday\<close>.
\<close>

text \<open>
  The \<^verbatim>\<open>while current_date <= week_end\<close> loop of
  \<^verbatim>\<open>get_shifts_required_for_week\<close>; the last argument is the running
  \<^verbatim>\<open>weekday_holidays\<close> counter.
\<close>

function count_weekday_holidays :: "(date \<Rightarrow> bool) \<Rightarrow> date \<Rightarrow> date \<Rightarrow> int \<Rightarrow> int" where
  "count_weekday_holidays is_holiday current_date week_end weekday_holidays =
     (if current_date \<le> week_end
      then count_weekday_holidays is_holiday (current_date + 1) week_end
             (if weekday current_date < 5 \<and> is_holiday current_date
              then weekday_holidays + 1 else weekday_holidays)
      else weekday_holidays)"
  by pat_completeness auto
termination
  by (relation "measure (\<lambda>(h, c, e, n). nat (e + 1 - c))") auto

declare count_weekday_holidays.simps [simp del]

definition get_shifts_required_for_week :: "(date \<Rightarrow> bool) \<Rightarrow> date \<Rightarrow> int" where
  "get_shifts_required_for_week is_holiday week_start =
     (let week_end = week_start + 6;
          weekday_holidays = count_weekday_holidays is_holiday week_start week_end 0
      in max 4 (5 - weekday_holidays))"

text \<open>
  The number of Monday-to-Friday public holidays in \<open>[week_start, week_start + 6]\<close>,
  written as the specification words it.
\<close>

definition weekday_holidays_in_week :: "(date \<Rightarrow> bool) \<Rightarrow> date \<Rightarrow> int" where
  "weekday_holidays_in_week is_holiday week_start =
     int (length (filter (\<lambda>d. weekday d < 5 \<and> is_holiday d) [week_start..week_start + 6]))"

section \<open>The \<^verbatim>\<open>schedules\<close> table (models.py)\<close>

text \<open>
  One row of \<^verbatim>\<open>Schedule\<close>, with the columns the handlers below read or write.
  \<^verbatim>\<open>status\<close> is a free string column, \<^verbatim>\<open>start_time\<close>, \<^verbatim>\<open>end_time\<close>
  and \<^verbatim>\<open>shift_id\<close> are nullable. A table is the list of its rows in insertion
  order; \<^verbatim>\<open>db.add\<close> appends, a delete filters.
\<close>

record schedule =
  sched_id :: int
  sched_department_id :: int
  sched_employee_id :: int
  sched_role_id :: "int option"
  sched_shift_id :: "int option"
  sched_date :: date
  sched_start_time :: "string option"
  sched_end_time :: "string option"
  sched_status :: string
  sched_notes :: string

section \<open>Constraint validators (main.py)\<close>

text \<open>
  \<^verbatim>\<open>if exclude_schedule_id: query = query.filter(Schedule.id != exclude_schedule_id)\<close>:
  the filter is added only for a truthy argument, so neither \<^verbatim>\<open>None\<close> nor
  \<^verbatim>\<open>0\<close> excludes a row.
\<close>

definition not_excluded :: "int option \<Rightarrow> schedule \<Rightarrow> bool" where
  "not_excluded exclude_schedule_id s =
     (case exclude_schedule_id of
        None \<Rightarrow> True
      | Some i \<Rightarrow> (if i = 0 then True else sched_id s \<noteq> i))"

definition weekday_coverage_statuses :: "string list" where
  "weekday_coverage_statuses =
     [''scheduled'', ''leave'', ''comp_off_taken'', ''comp_off_earned'',
      ''leave_half_morning'', ''leave_half_afternoon'']"

definition weekend_regular_statuses :: "string list" where
  "weekend_regular_statuses =
     [''scheduled'', ''leave'', ''leave_half_morning'', ''leave_half_afternoon'']"

text \<open>The two \<^verbatim>\<open>select(func.count(Schedule.id))\<close> queries.\<close>

definition weekday_coverage_query ::
  "schedule list \<Rightarrow> int \<Rightarrow> date \<Rightarrow> date \<Rightarrow> int option \<Rightarrow> int" where
  "weekday_coverage_query rows employee_id week_start week_end exclude_schedule_id =
     int (length (filter
       (\<lambda>s. sched_employee_id s = employee_id \<and>
            sched_date s \<ge> week_start \<and>
            sched_date s \<le> week_end \<and>
            sched_status s \<in> set weekday_coverage_statuses \<and>
            pg_dow (sched_date s) \<in> set [1, 2, 3, 4, 5] \<and>
            not_excluded exclude_schedule_id s) rows))"

definition weekend_regular_query ::
  "schedule list \<Rightarrow> int \<Rightarrow> date \<Rightarrow> date \<Rightarrow> int option \<Rightarrow> int" where
  "weekend_regular_query rows employee_id week_start week_end exclude_schedule_id =
     int (length (filter
       (\<lambda>s. sched_employee_id s = employee_id \<and>
            sched_date s \<ge> week_start \<and>
            sched_date s \<le> week_end \<and>
            sched_status s \<in> set weekend_regular_statuses \<and>
            pg_dow (sched_date s) \<in> set [6, 0] \<and>
            not_excluded exclude_schedule_id s) rows))"

text \<open>
  The validators return \<^verbatim>\<open>(is_valid, error_message)\<close>. The message is kept as
  the numbers its f-string prints (the holiday-name suffix is left out).
\<close>

datatype validation_message =
    NoMessage
  | WeekdayRequirementMet date int int
  | WeeklyTotalReached int int int int
  | WeekdayLimitReached int int
  | TooManyConsecutive int int

definition validate_5_shifts_per_week ::
  "(date \<Rightarrow> bool) \<Rightarrow> schedule list \<Rightarrow> int \<Rightarrow> date \<Rightarrow> int option \<Rightarrow> bool \<times> validation_message" where
  "validate_5_shifts_per_week is_holiday rows employee_id target_date exclude_schedule_id =
     (let week_start = target_date - weekday target_date;
          week_end = week_start + 6;
          required_shifts = get_shifts_required_for_week is_holiday week_start;
          weekday_coverage =
            weekday_coverage_query rows employee_id week_start week_end exclude_schedule_id;
          weekend_regular_shifts =
            weekend_regular_query rows employee_id week_start week_end exclude_schedule_id;
          target_weekday = weekday target_date
      in if target_weekday \<ge> 5 then
           (if weekday_coverage \<ge> required_shifts then
              (False, WeekdayRequirementMet target_date weekday_coverage required_shifts)
            else
              (let total_shifts = weekday_coverage + weekend_regular_shifts
               in if total_shifts \<ge> required_shifts then
                    (False, WeeklyTotalReached required_shifts weekday_coverage
                              weekend_regular_shifts total_shifts)
                  else (True, NoMessage)))
         else
           (if weekday_coverage \<ge> required_shifts then
              (False, WeekdayLimitReached required_shifts weekday_coverage)
            else (True, NoMessage)))"

text \<open>
  \<^verbatim>\<open>list(dict.fromkeys(xs))\<close>: the first occurrence of every element, in order.
\<close>

function dict_fromkeys :: "'a list \<Rightarrow> 'a list" where
  "dict_fromkeys [] = []"
| "dict_fromkeys (x # xs) = x # dict_fromkeys (filter (\<lambda>y. y \<noteq> x) xs)"
  by pat_completeness auto
termination
  by (relation "measure length") (auto simp: less_Suc_eq_le)

text \<open>
  The \<^verbatim>\<open>for i in range(1, len(all_dates))\<close> loop that finds the longest run of
  consecutive days: the list argument starts at \<^verbatim>\<open>all_dates[i-1]\<close>, the other two
  are \<^verbatim>\<open>current_consecutive\<close> and \<^verbatim>\<open>max_consecutive_found\<close>.
\<close>

fun longest_run :: "date list \<Rightarrow> int \<Rightarrow> int \<Rightarrow> int" where
  "longest_run (a # b # rest) current_consecutive max_consecutive_found =
     (if b - a = 1
      then longest_run (b # rest) (current_consecutive + 1)
             (max max_consecutive_found (current_consecutive + 1))
      else longest_run (b # rest) 1 max_consecutive_found)"
| "longest_run _ current_consecutive max_consecutive_found = max_consecutive_found"

definition consecutive_statuses :: "string list" where
  "consecutive_statuses =
     [''scheduled'', ''leave'', ''comp_off_taken'', ''leave_half_morning'',
      ''leave_half_afternoon'']"

definition consecutive_query ::
  "schedule list \<Rightarrow> int \<Rightarrow> date \<Rightarrow> date \<Rightarrow> int option \<Rightarrow> schedule list" where
  "consecutive_query rows employee_id week_start week_end exclude_schedule_id =
     filter
       (\<lambda>s. sched_employee_id s = employee_id \<and>
            sched_date s \<ge> week_start \<and>
            sched_date s \<le> week_end \<and>
            sched_status s \<in> set consecutive_statuses \<and>
            not_excluded exclude_schedule_id s) rows"

definition validate_consecutive_shifts_limit ::
  "schedule list \<Rightarrow> int \<Rightarrow> date \<Rightarrow> int option \<Rightarrow> int \<Rightarrow> bool \<times> validation_message" where
  "validate_consecutive_shifts_limit rows employee_id target_date exclude_schedule_id
       max_consecutive =
     (let week_start = target_date - weekday target_date;
          week_end = week_start + 6;
          existing_schedules =
            consecutive_query rows employee_id week_start week_end exclude_schedule_id;
          all_dates = dict_fromkeys (sort (map sched_date existing_schedules @ [target_date]));
          max_consecutive_found = longest_run all_dates 1 1
      in if max_consecutive_found > max_consecutive
         then (False, TooManyConsecutive max_consecutive_found max_consecutive)
         else (True, NoMessage))"

section \<open>The weekly quota as the specification words it\<close>

text \<open>
  The Monday of the week of a date; weekday coverage and weekend regular shifts counted
  by the Python weekday (0 to 4 is Monday to Friday), with the row whose id is
  \<^verbatim>\<open>exclude_schedule_id\<close> left out.
\<close>

definition monday_of :: "date \<Rightarrow> date" where
  "monday_of d = d - weekday d"

definition spec_weekday_coverage ::
  "schedule list \<Rightarrow> int \<Rightarrow> date \<Rightarrow> int option \<Rightarrow> int" where
  "spec_weekday_coverage rows employee_id target_date exclude_schedule_id =
     int (length (filter
       (\<lambda>s. sched_employee_id s = employee_id \<and>
            monday_of target_date \<le> sched_date s \<and>
            sched_date s \<le> monday_of target_date + 6 \<and>
            weekday (sched_date s) < 5 \<and>
            sched_status s \<in> {''scheduled'', ''leave'', ''comp_off_taken'', ''comp_off_earned'',
                              ''leave_half_morning'', ''leave_half_afternoon''} \<and>
            Some (sched_id s) \<noteq> exclude_schedule_id) rows))"

definition spec_weekend_regular_shifts ::
  "schedule list \<Rightarrow> int \<Rightarrow> date \<Rightarrow> int option \<Rightarrow> int" where
  "spec_weekend_regular_shifts rows employee_id target_date exclude_schedule_id =
     int (length (filter
       (\<lambda>s. sched_employee_id s = employee_id \<and>
            monday_of target_date \<le> sched_date s \<and>
            sched_date s \<le> monday_of target_date + 6 \<and>
            weekday (sched_date s) \<ge> 5 \<and>
            sched_status s \<in> {''scheduled'', ''leave'', ''leave_half_morning'',
                              ''leave_half_afternoon''} \<and>
            Some (sched_id s) \<noteq> exclude_schedule_id) rows))"

text \<open>
  An example row: a 09:00 to 18:00 shift of department 1 with the given id, employee,
  date and status.
\<close>

definition example_row :: "int \<Rightarrow> int \<Rightarrow> date \<Rightarrow> string \<Rightarrow> schedule" where
  "example_row i e d st =
     \<lparr>sched_id = i, sched_department_id = 1, sched_employee_id = e, sched_role_id = Some 1,
      sched_shift_id = Some 1, sched_date = d, sched_start_time = Some ''09:00'',
      sched_end_time = Some ''18:00'', sched_status = st, sched_notes = []\<rparr>"

section \<open>The generator's own consecutive-day check (generate_schedules)\<close>

text \<open>
  Inside its assignment loop the generator does not call the validator: it selects the
  employee's rows of the week with status scheduled, completed or comp_off_earned, adds
  the current date when it is not among their dates, sorts, and runs the same loop
  without removing duplicates. The employee is skipped when the result is above 5.
\<close>

definition generator_consecutive_statuses :: "string list" where
  "generator_consecutive_statuses = [''scheduled'', ''completed'', ''comp_off_earned'']"

definition generator_week_dates :: "schedule list \<Rightarrow> int \<Rightarrow> date \<Rightarrow> date list" where
  "generator_week_dates rows employee_id current_date =
     (let week_start = current_date - weekday current_date;
          week_end = week_start + 6;
          week_schedules = filter
            (\<lambda>s. sched_employee_id s = employee_id \<and>
                 sched_date s \<ge> week_start \<and>
                 sched_date s \<le> week_end \<and>
                 sched_status s \<in> set generator_consecutive_statuses) rows;
          week_dates = map sched_date week_schedules
      in if current_date \<notin> set week_dates then week_dates @ [current_date] else week_dates)"

definition generator_consecutive_check :: "schedule list \<Rightarrow> int \<Rightarrow> date \<Rightarrow> bool" where
  "generator_consecutive_check rows employee_id current_date =
     (let max_consecutive = longest_run (sort (generator_week_dates rows employee_id current_date)) 1 1
      in \<not> max_consecutive > 5)"

section \<open>Runs of consecutive days\<close>

text \<open>
  The dates of an employee's rows with one of the given statuses, in the Monday-to-Sunday
  week that starts at \<open>week_start\<close> or over the whole table; \<open>has_run ds a n\<close> says
  that the \<open>n\<close> consecutive days from \<open>a\<close> are all among \<open>ds\<close>.
\<close>

definition week_counted_dates :: "string list \<Rightarrow> schedule list \<Rightarrow> int \<Rightarrow> date \<Rightarrow> date list" where
  "week_counted_dates statuses rows employee_id week_start =
     map sched_date (filter
       (\<lambda>s. sched_employee_id s = employee_id \<and>
            week_start \<le> sched_date s \<and> sched_date s \<le> week_start + 6 \<and>
            sched_status s \<in> set statuses) rows)"


definition has_run :: "date list \<Rightarrow> date \<Rightarrow> nat \<Rightarrow> bool" where
  "has_run ds a n = list_all (\<lambda>i. a + int i \<in> set ds) [0..<n]"



section \<open>Python floats\<close>

text \<open>
  A Python \<^verbatim>\<open>float\<close> is an IEEE 754 double. A finite double is represented here by
  the rational number it denotes, and an operation on floats by the exact operation
  followed by the rounding of its result to the nearest double, a tie going to the even
  mantissa. The exponent is not bounded: the overflow to infinity, beyond \<open>2 ^ 1024\<close>
  in magnitude, and the subnormal numbers, below \<open>2 ^ - 1022\<close>, are not represented
  (of the values computed below, only an hour or minute field of more than 300 digits
  reaches them), and the two zeros are one value (they compare equal in Python).

  \<open>bit_length\<close> is \<^verbatim>\<open>int.bit_length\<close>, \<open>pow2 e\<close> is \<open>2 ^ e\<close>,
  \<open>round_half_even\<close> the nearest integer with ties to the even one, and
  \<open>floor_log2 q\<close>, for \<open>q > 0\<close>, the exponent \<open>e\<close> with
  \<open>2 ^ e \<le> q < 2 ^ (e + 1)\<close>. \<open>to_double q\<close> is the double nearest to \<open>q\<close>: the
  multiple of \<open>2 ^ (e - 52)\<close> nearest to it, whose mantissa has 53 bits.
\<close>

function bit_length :: "nat \<Rightarrow> nat" where
  "bit_length n = (if n = 0 then 0 else bit_length (n div 2) + 1)"
  by pat_completeness auto
termination
  by (relation "measure (\<lambda>n. n)") auto

declare bit_length.simps [simp del]

definition pow2 :: "int \<Rightarrow> rat" where
  "pow2 e = (if 0 \<le> e then 2 ^ nat e else 1 / 2 ^ nat (- e))"

definition round_half_even :: "rat \<Rightarrow> int" where
  "round_half_even y =
     (let f = \<lfloor>y\<rfloor>; d = y - of_int f
      in if d < 1 / 2 then f else if d > 1 / 2 then f + 1
         else if even f then f else f + 1)"

definition floor_log2 :: "rat \<Rightarrow> int" where
  "floor_log2 q =
     (if 1 \<le> q then int (bit_length (nat \<lfloor>q\<rfloor>)) - 1
      else (let b = int (bit_length (nat \<lfloor>1 / q\<rfloor>))
            in if pow2 (1 - b) \<le> q then 1 - b else - b))"

definition to_double :: "rat \<Rightarrow> rat" where
  "to_double q =
     (if q = 0 then 0
      else (let e = floor_log2 \<bar>q\<bar> - 52;
                m = round_half_even (\<bar>q\<bar> / pow2 e)
            in sgn q * of_int m * pow2 e))"

text \<open>
  \<^verbatim>\<open>float(n)\<close>, the conversion that Python applies to an \<^verbatim>\<open>int\<close> operand of a
  float operation, and the operations \<^verbatim>\<open>a + b\<close>, \<^verbatim>\<open>a - b\<close> and
  \<^verbatim>\<open>a / b\<close> on floats. The quotient \<^verbatim>\<open>m / n\<close> of two \<^verbatim>\<open>int\<close>s is the
  double nearest to the exact quotient, which is \<open>fdiv\<close> of the two integers.
\<close>

definition float_of_int :: "int \<Rightarrow> rat" where
  "float_of_int n = to_double (of_int n)"

definition fadd :: "rat \<Rightarrow> rat \<Rightarrow> rat" where
  "fadd a b = to_double (a + b)"

definition fsub :: "rat \<Rightarrow> rat \<Rightarrow> rat" where
  "fsub a b = to_double (a - b)"

definition fdiv :: "rat \<Rightarrow> rat \<Rightarrow> rat" where
  "fdiv a b = to_double (a / b)"

text \<open>
  \<^verbatim>\<open>round(x, 2)\<close> on a float. CPython writes the exact value of the double as a
  decimal with two places, correctly rounded with a tie going to the even digit, and
  reads that decimal back as a double.
\<close>

definition py_round2 :: "rat \<Rightarrow> rat" where
  "py_round2 x = to_double (of_int (round_half_even (x * 100)) / 100)"

section \<open>The other tables and the database\<close>

text \<open>
  The rows of the other tables, with the columns that the handlers modelled below read
  or write; timestamps (\<^verbatim>\<open>created_at\<close>, \<^verbatim>\<open>reviewed_at\<close>, ...) are left
  out. \<^verbatim>\<open>LeaveStatus\<close> and \<^verbatim>\<open>OvertimeStatus\<close> have the same three members.
  A \<^verbatim>\<open>Float\<close> column holds a finite double, given as the rational number it
  denotes.
\<close>

datatype request_status = PENDING | APPROVED | REJECTED

record employee =
  emp_id :: int
  emp_department_id :: int
  emp_role_id :: "int option"
  emp_user_id :: "int option"
  emp_first_name :: string
  emp_last_name :: string
  emp_daily_max_hours :: rat

record manager =
  mgr_id :: int
  mgr_user_id :: int
  mgr_department_id :: int

record attendance =
  att_id :: int
  att_employee_id :: int
  att_schedule_id :: "int option"
  att_date :: date
  att_worked_hours :: rat
  att_overtime_hours :: rat
  att_break_minutes :: int

record check_in_out =
  cio_id :: int
  cio_employee_id :: int
  cio_schedule_id :: "int option"
  cio_date :: date

record comp_off_request =
  cor_id :: int
  cor_employee_id :: int
  cor_comp_off_date :: date
  cor_reason :: "string option"
  cor_status :: request_status
  cor_manager_id :: "int option"
  cor_review_notes :: "string option"
  cor_schedule_id :: "int option"

record comp_off_tracking =
  cot_id :: int
  cot_employee_id :: int
  cot_earned_days :: int
  cot_used_days :: int
  cot_available_days :: int

record comp_off_detail =
  cod_id :: int
  cod_employee_id :: int
  cod_tracking_id :: int
  cod_type :: string
  cod_date :: date
  cod_earned_month :: string

record overtime_tracking =
  ot_id :: int
  ot_employee_id :: int
  ot_month :: int
  ot_year :: int
  ot_allocated_hours :: rat
  ot_used_hours :: rat
  ot_remaining_hours :: rat

record leave_request =
  lr_id :: int
  lr_employee_id :: int
  lr_start_date :: date
  lr_end_date :: date
  lr_leave_type :: string
  lr_duration_type :: "string option"
  lr_reason :: "string option"
  lr_status :: request_status
  lr_manager_id :: "int option"
  lr_review_notes :: "string option"

record database =
  schedules :: "schedule list"
  attendances :: "attendance list"
  check_ins :: "check_in_out list"
  comp_off_requests :: "comp_off_request list"
  comp_off_trackings :: "comp_off_tracking list"
  comp_off_details :: "comp_off_detail list"
  leave_requests :: "leave_request list"
  employees :: "employee list"
  managers :: "manager list"
  overtime_trackings :: "overtime_tracking list"

text \<open>
  What a handler can raise: an \<^verbatim>\<open>HTTPException\<close> with its status code and detail
  (\<open>HTTPValidation\<close> when the detail is a validator's message), SQLAlchemy's
  \<^verbatim>\<open>MultipleResultsFound\<close> from \<^verbatim>\<open>scalar_one_or_none\<close>, and Python's
  \<^verbatim>\<open>NameError\<close> for a name that is bound nowhere.
\<close>

datatype error =
    HTTPException int string
  | HTTPValidation int validation_message
  | MultipleResultsFound
  | NameError string

definition scalar_one_or_none :: "'a list \<Rightarrow> error + 'a option" where
  "scalar_one_or_none result =
     (case result of
        [] \<Rightarrow> Inr None
      | [x] \<Rightarrow> Inr (Some x)
      | _ \<Rightarrow> Inl MultipleResultsFound)"

text \<open>
  A flush gives a new row the next value of its table's id sequence; the model takes one
  more than the largest id in the table (1 for an empty table).
\<close>

definition next_id :: "int list \<Rightarrow> int" where
  "next_id ids = fold max ids 0 + 1"

text \<open>\<^verbatim>\<open>x or default\<close> on an optional string: \<^verbatim>\<open>None\<close> and the empty string are falsy.\<close>

definition or_default :: "string option \<Rightarrow> string \<Rightarrow> string" where
  "or_default x d = (case x of None \<Rightarrow> d | Some s \<Rightarrow> (if s = [] then d else s))"

section \<open>Approving a comp-off request (approve_comp_off)\<close>

text \<open>
  \<open>year_month\<close> stands for \<^verbatim>\<open>strftime("%Y-%m")\<close> of the standard library. The
  handler looks up the request, the manager of the current user and the employee, marks
  the request approved, adds a schedule row, links it to the request, updates or creates
  the tracking row and adds a detail row.
\<close>

definition approve_comp_off ::
  "(date \<Rightarrow> string) \<Rightarrow> database \<Rightarrow> int \<Rightarrow> string option \<Rightarrow> int \<Rightarrow> error + database" where
  "approve_comp_off year_month db comp_off_id review_notes current_user_id =
     (case scalar_one_or_none (filter (\<lambda>c. cor_id c = comp_off_id) (comp_off_requests db)) of
        Inl e \<Rightarrow> Inl e
      | Inr None \<Rightarrow> Inl (HTTPException 404 ''Comp-off request not found'')
      | Inr (Some comp_off) \<Rightarrow>
     (case scalar_one_or_none (filter (\<lambda>m. mgr_user_id m = current_user_id) (managers db)) of
        Inl e \<Rightarrow> Inl e
      | Inr None \<Rightarrow> Inl (HTTPException 403 ''User is not a manager'')
      | Inr (Some manager) \<Rightarrow>
     (case scalar_one_or_none
             (filter (\<lambda>e. emp_id e = cor_employee_id comp_off) (employees db)) of
        Inl e \<Rightarrow> Inl e
      | Inr None \<Rightarrow> Inl (HTTPException 404 ''Employee not found'')
      | Inr (Some employee) \<Rightarrow>
     (let new_schedule =
            \<lparr>sched_id = next_id (map sched_id (schedules db)),
             sched_department_id = emp_department_id employee,
             sched_employee_id = emp_id employee,
             sched_role_id = emp_role_id employee,
             sched_shift_id = None,
             sched_date = cor_comp_off_date comp_off,
             sched_start_time = None,
             sched_end_time = None,
             sched_status = ''comp_off_taken'',
             sched_notes = ''Comp-Off Earned: '' @
               or_default (cor_reason comp_off) ''Worked on non-shift day''\<rparr>;
          comp_off' = comp_off
            \<lparr>cor_status := APPROVED,
             cor_manager_id := Some (mgr_id manager),
             cor_review_notes := review_notes,
             cor_schedule_id := Some (sched_id new_schedule)\<rparr>;
          db1 = db
            \<lparr>schedules := schedules db @ [new_schedule],
             comp_off_requests :=
               map (\<lambda>c. if cor_id c = comp_off_id then comp_off' else c) (comp_off_requests db)\<rparr>
      in
     (case scalar_one_or_none
             (filter (\<lambda>t. cot_employee_id t = emp_id employee) (comp_off_trackings db1)) of
        Inl e \<Rightarrow> Inl e
      | Inr found \<Rightarrow>
     (let tracking =
            (case found of
               Some tr \<Rightarrow> tr
                 \<lparr>cot_earned_days := cot_earned_days tr + 1,
                  cot_available_days := cot_earned_days tr + 1 - cot_used_days tr\<rparr>
             | None \<Rightarrow>
                 \<lparr>cot_id = next_id (map cot_id (comp_off_trackings db1)),
                  cot_employee_id = emp_id employee,
                  cot_earned_days = 1,
                  cot_used_days = 0,
                  cot_available_days = 1\<rparr>);
          trackings' =
            (case found of
               Some tr \<Rightarrow>
                 map (\<lambda>t. if cot_id t = cot_id tr then tracking else t) (comp_off_trackings db1)
             | None \<Rightarrow> comp_off_trackings db1 @ [tracking]);
          detail =
            \<lparr>cod_id = next_id (map cod_id (comp_off_details db1)),
             cod_employee_id = emp_id employee,
             cod_tracking_id = cot_id tracking,
             cod_type = ''earned'',
             cod_date = cor_comp_off_date comp_off,
             cod_earned_month = year_month (cor_comp_off_date comp_off)\<rparr>
      in Inr (db1
            \<lparr>comp_off_trackings := trackings',
             comp_off_details := comp_off_details db1 @ [detail]\<rparr>)))))))"

text \<open>
  Example database: employee 7 of department 1, manager 3 (user 30), and a pending
  comp-off request of employee 7 for Sunday 2025-01-12 (ordinal 739263).
\<close>

definition earning_db :: "schedule list \<Rightarrow> database" where
  "earning_db rows =
     \<lparr>schedules = rows,
      attendances = [],
      check_ins = [],
      comp_off_requests =
        [\<lparr>cor_id = 1, cor_employee_id = 7, cor_comp_off_date = 739263, cor_reason = None,
          cor_status = PENDING, cor_manager_id = None, cor_review_notes = None,
          cor_schedule_id = None\<rparr>],
      comp_off_trackings = [],
      comp_off_details = [],
      leave_requests = [],
      employees =
        [\<lparr>emp_id = 7, emp_department_id = 1, emp_role_id = Some 1, emp_user_id = Some 70,
          emp_first_name = ''A'', emp_last_name = ''B'', emp_daily_max_hours = 8\<rparr>],
      managers = [\<lparr>mgr_id = 3, mgr_user_id = 30, mgr_department_id = 1\<rparr>],
      overtime_trackings = []\<rparr>"

definition worked_week_rows :: "schedule list" where
  "worked_week_rows =
     [example_row 1 7 739257 ''scheduled'', example_row 2 7 739258 ''scheduled'',
      example_row 3 7 739259 ''scheduled'', example_row 4 7 739260 ''scheduled'',
      example_row 5 7 739261 ''scheduled'']"

section \<open>Approving a leave request (approve_leave)\<close>

text \<open>
  \<^verbatim>\<open>db.delete(sched)\<close> removes the row with that primary key; the relationships
  \<^verbatim>\<open>Schedule.attendance\<close> and \<^verbatim>\<open>Schedule.check_in\<close> are declared with
  \<^verbatim>\<open>cascade="all, delete-orphan"\<close>, so the rows that reference it go with it.
  Foreign-key checks of the database are not modelled.
\<close>

definition orm_delete_schedule :: "schedule \<Rightarrow> database \<Rightarrow> database" where
  "orm_delete_schedule sched db = db
     \<lparr>schedules := filter (\<lambda>s. sched_id s \<noteq> sched_id sched) (schedules db),
      attendances :=
        filter (\<lambda>a. att_schedule_id a \<noteq> Some (sched_id sched)) (attendances db),
      check_ins :=
        filter (\<lambda>c. cio_schedule_id c \<noteq> Some (sched_id sched)) (check_ins db)\<rparr>"

text \<open>The schedule row that the paid/unpaid branch adds for one day.\<close>

definition leave_schedule :: "int \<Rightarrow> employee \<Rightarrow> leave_request \<Rightarrow> date \<Rightarrow> schedule" where
  "leave_schedule new_id employee leave_request current_date =
     (let half_day =
            (case lr_duration_type leave_request of
               None \<Rightarrow> False
             | Some d \<Rightarrow> d \<noteq> [] \<and> take 8 d = ''half_day'');
          morning = (lr_duration_type leave_request = Some ''half_day_morning'');
          status =
            (if half_day then (if morning then ''leave_half_morning'' else ''leave_half_afternoon'')
             else ''leave'');
          start_time = (if half_day \<and> \<not> morning then ''12:00'' else ''00:00'');
          end_time = (if half_day \<and> morning then ''12:00'' else ''23:59'');
          notes =
            (if half_day then
               (if morning then ''Half Day Leave (Morning) - '' else ''Half Day Leave (Afternoon) - '')
             else ''Full Day Leave - '') @ lr_leave_type leave_request
      in \<lparr>sched_id = new_id,
          sched_department_id = emp_department_id employee,
          sched_employee_id = emp_id employee,
          sched_role_id = emp_role_id employee,
          sched_shift_id = None,
          sched_date = current_date,
          sched_start_time = Some start_time,
          sched_end_time = Some end_time,
          sched_status = status,
          sched_notes = notes\<rparr>)"

text \<open>
  The \<^verbatim>\<open>while current_date <= leave_request.end_date\<close> loop of the paid/unpaid
  branch: a day gets a leave row only when the employee has no row that is not cancelled.
\<close>

function paid_leave_loop ::
  "schedule list \<Rightarrow> employee \<Rightarrow> leave_request \<Rightarrow> date \<Rightarrow> error + schedule list" where
  "paid_leave_loop rows employee leave_request current_date =
     (if current_date \<le> lr_end_date leave_request then
        (case scalar_one_or_none
                (filter (\<lambda>s. sched_employee_id s = emp_id employee \<and>
                             sched_date s = current_date \<and>
                             sched_status s \<noteq> ''cancelled'') rows) of
           Inl e \<Rightarrow> Inl e
         | Inr (Some existing) \<Rightarrow>
             paid_leave_loop rows employee leave_request (current_date + 1)
         | Inr None \<Rightarrow>
             paid_leave_loop
               (rows @ [leave_schedule (next_id (map sched_id rows)) employee leave_request
                          current_date])
               employee leave_request (current_date + 1))
      else Inr rows)"
  by pat_completeness auto
termination
  by (relation "measure (\<lambda>(r, e, l, c). nat (lr_end_date l + 1 - c))") auto

declare paid_leave_loop.simps [simp del]

text \<open>
  The expiry loop of the comp_off branch: the first day whose month string is smaller
  than the current month's raises; \<open>today\<close> is the date of \<^verbatim>\<open>datetime.utcnow()\<close>.
\<close>

function comp_off_expiry_loop ::
  "(date \<Rightarrow> string) \<Rightarrow> date \<Rightarrow> leave_request \<Rightarrow> date \<Rightarrow> error + unit" where
  "comp_off_expiry_loop year_month today leave_request current_check_date =
     (if current_check_date \<le> lr_end_date leave_request then
        (if year_month current_check_date < year_month today then
           Inl (HTTPException 400
             (''Cannot use comp-off from '' @ year_month current_check_date @
              ''. Comp-off expires at end of the month earned.''))
         else comp_off_expiry_loop year_month today leave_request (current_check_date + 1))
      else Inr ())"
  by pat_completeness auto
termination
  by (relation "measure (\<lambda>(y, t, l, c). nat (lr_end_date l + 1 - c))") auto

declare comp_off_expiry_loop.simps [simp del]

text \<open>
  The loop that creates the \<^verbatim>\<open>comp_off_taken\<close> rows: for each day it first
  deletes the employee's rows of that day whose status is neither
  \<^verbatim>\<open>comp_off_taken\<close> nor \<^verbatim>\<open>cancelled\<close>, then adds the new row. The last
  argument is \<^verbatim>\<open>comp_off_days\<close>.
\<close>

definition comp_off_schedule :: "int \<Rightarrow> employee \<Rightarrow> leave_request \<Rightarrow> date \<Rightarrow> schedule" where
  "comp_off_schedule new_id employee leave_request current_date =
     \<lparr>sched_id = new_id,
      sched_department_id = emp_department_id employee,
      sched_employee_id = emp_id employee,
      sched_role_id = emp_role_id employee,
      sched_shift_id = None,
      sched_date = current_date,
      sched_start_time = None,
      sched_end_time = None,
      sched_status = ''comp_off_taken'',
      sched_notes = ''Comp-Off Taken: '' @
        or_default (lr_reason leave_request) ''Using earned comp-off''\<rparr>"

function comp_off_taken_loop ::
  "database \<Rightarrow> employee \<Rightarrow> leave_request \<Rightarrow> date \<Rightarrow> int \<Rightarrow> database \<times> int" where
  "comp_off_taken_loop db employee leave_request current_date comp_off_days =
     (if current_date \<le> lr_end_date leave_request then
        (let existing_schedules =
               filter (\<lambda>s. sched_employee_id s = emp_id employee \<and>
                            sched_date s = current_date \<and>
                            sched_status s \<noteq> ''comp_off_taken'' \<and>
                            sched_status s \<noteq> ''cancelled'') (schedules db);
             db1 = fold orm_delete_schedule existing_schedules db;
             comp_off_schedule =
               comp_off_schedule (next_id (map sched_id (schedules db1))) employee
                 leave_request current_date
         in comp_off_taken_loop (db1\<lparr>schedules := schedules db1 @ [comp_off_schedule]\<rparr>)
              employee leave_request (current_date + 1) (comp_off_days + 1))
      else (db, comp_off_days))"
  by pat_completeness auto
termination
  by (relation "measure (\<lambda>(d, e, l, c, n). nat (lr_end_date l + 1 - c))") auto

declare comp_off_taken_loop.simps [simp del]

text \<open>The loop that adds one \<^verbatim>\<open>used\<close> detail row per day.\<close>

function used_detail_loop ::
  "(date \<Rightarrow> string) \<Rightarrow> comp_off_detail list \<Rightarrow> employee \<Rightarrow> comp_off_tracking \<Rightarrow>
   leave_request \<Rightarrow> date \<Rightarrow> comp_off_detail list" where
  "used_detail_loop year_month details employee tracking leave_request current_date =
     (if current_date \<le> lr_end_date leave_request then
        used_detail_loop year_month
          (details @
            [\<lparr>cod_id = next_id (map cod_id details),
              cod_employee_id = emp_id employee,
              cod_tracking_id = cot_id tracking,
              cod_type = ''used'',
              cod_date = current_date,
              cod_earned_month = year_month current_date\<rparr>])
          employee tracking leave_request (current_date + 1)
      else details)"
  by pat_completeness auto
termination
  by (relation "measure (\<lambda>(y, d, e, t, l, c). nat (lr_end_date l + 1 - c))") auto

declare used_detail_loop.simps [simp del]

definition approve_leave ::
  "(date \<Rightarrow> string) \<Rightarrow> date \<Rightarrow> database \<Rightarrow> int \<Rightarrow> string option \<Rightarrow> int \<Rightarrow> error + database" where
  "approve_leave year_month today db leave_id review_notes current_user_id =
     (case scalar_one_or_none (filter (\<lambda>l. lr_id l = leave_id) (leave_requests db)) of
        Inl e \<Rightarrow> Inl e
      | Inr None \<Rightarrow> Inl (HTTPException 404 ''Leave request not found'')
      | Inr (Some leave_request0) \<Rightarrow>
     (case scalar_one_or_none (filter (\<lambda>m. mgr_user_id m = current_user_id) (managers db)) of
        Inl e \<Rightarrow> Inl e
      | Inr None \<Rightarrow> Inl (HTTPException 403 ''User is not a manager'')
      | Inr (Some manager) \<Rightarrow>
     (let leave_request = leave_request0
            \<lparr>lr_status := APPROVED,
             lr_manager_id := Some (mgr_id manager),
             lr_review_notes := review_notes\<rparr>;
          db0 = db\<lparr>leave_requests :=
            map (\<lambda>l. if lr_id l = leave_id then leave_request else l) (leave_requests db)\<rparr>
      in
     (case scalar_one_or_none
             (filter (\<lambda>e. emp_id e = lr_employee_id leave_request) (employees db0)) of
        Inl e \<Rightarrow> Inl e
      | Inr None \<Rightarrow> Inr db0
      | Inr (Some employee) \<Rightarrow>
     (case (if lr_leave_type leave_request \<in> set [''paid'', ''unpaid'']
            then paid_leave_loop (schedules db0) employee leave_request
                   (lr_start_date leave_request)
            else Inr (schedules db0)) of
        Inl e \<Rightarrow> Inl e
      | Inr rows1 \<Rightarrow>
     (let db1 = db0\<lparr>schedules := rows1\<rparr>
      in if lr_leave_type leave_request = ''comp_off'' then
     (case comp_off_expiry_loop year_month today leave_request
             (lr_start_date leave_request) of
        Inl e \<Rightarrow> Inl e
      | Inr u \<Rightarrow>
     (case comp_off_taken_loop db1 employee leave_request (lr_start_date leave_request) 0 of
        (db2, comp_off_days) \<Rightarrow>
     (case scalar_one_or_none
             (filter (\<lambda>t. cot_employee_id t = emp_id employee) (comp_off_trackings db2)) of
        Inl e \<Rightarrow> Inl e
      | Inr None \<Rightarrow> Inr db2
      | Inr (Some tracking0) \<Rightarrow>
     (let tracking = tracking0
            \<lparr>cot_used_days := cot_used_days tracking0 + comp_off_days,
             cot_available_days :=
               cot_earned_days tracking0 - (cot_used_days tracking0 + comp_off_days)\<rparr>
      in Inr (db2
           \<lparr>comp_off_trackings :=
              map (\<lambda>t. if cot_id t = cot_id tracking0 then tracking else t)
                (comp_off_trackings db2),
            comp_off_details :=
              used_detail_loop year_month (comp_off_details db2) employee tracking
                leave_request (lr_start_date leave_request)\<rparr>)))))
      else Inr db1))))))"

text \<open>
  The rows that approving a comp_off leave for an employee and a range of days replaces:
  the employee's rows in the range whose status is neither \<^verbatim>\<open>comp_off_taken\<close> nor
  \<^verbatim>\<open>cancelled\<close>.
\<close>

definition comp_off_replaced :: "int \<Rightarrow> date \<Rightarrow> date \<Rightarrow> schedule \<Rightarrow> bool" where
  "comp_off_replaced employee_id start_date end_date s \<longleftrightarrow>
     sched_employee_id s = employee_id \<and>
     start_date \<le> sched_date s \<and> sched_date s \<le> end_date \<and>
     sched_status s \<noteq> ''comp_off_taken'' \<and> sched_status s \<noteq> ''cancelled''"

text \<open>
  Example database: employees 7 and 8, and a pending comp_off leave request of employee 7
  for Tuesday 2025-01-14 and Wednesday 2025-01-15.
\<close>

definition leave_db :: database where
  "leave_db =
     \<lparr>schedules =
        [example_row 1 7 739265 ''scheduled'', example_row 2 7 739266 ''leave'',
         example_row 3 7 739267 ''scheduled'', example_row 4 8 739265 ''scheduled''],
      attendances = [],
      check_ins = [],
      comp_off_requests = [],
      comp_off_trackings =
        [\<lparr>cot_id = 1, cot_employee_id = 7, cot_earned_days = 2, cot_used_days = 0,
          cot_available_days = 2\<rparr>],
      comp_off_details = [],
      leave_requests =
        [\<lparr>lr_id = 1, lr_employee_id = 7, lr_start_date = 739265, lr_end_date = 739266,
          lr_leave_type = ''comp_off'', lr_duration_type = Some ''full_day'',
          lr_reason = None, lr_status = PENDING, lr_manager_id = None,
          lr_review_notes = None\<rparr>],
      employees =
        [\<lparr>emp_id = 7, emp_department_id = 1, emp_role_id = Some 1, emp_user_id = Some 70,
          emp_first_name = ''A'', emp_last_name = ''B'', emp_daily_max_hours = 8\<rparr>,
         \<lparr>emp_id = 8, emp_department_id = 1, emp_role_id = Some 1, emp_user_id = Some 80,
          emp_first_name = ''C'', emp_last_name = ''D'', emp_daily_max_hours = 8\<rparr>],
      managers = [\<lparr>mgr_id = 3, mgr_user_id = 30, mgr_department_id = 1\<rparr>],
      overtime_trackings = []\<rparr>"

section \<open>The schedule generator: pre-check and clearing (generate_schedules)\<close>

text \<open>
  The response dictionary, with the keys the pre-check sets (the feedback strings are
  left out); \<^verbatim>\<open>requires_confirmation\<close> and \<^verbatim>\<open>existing_count\<close> are present only
  in the confirmation response.
\<close>

record generate_response =
  resp_success :: bool
  resp_schedules_created :: int
  resp_requires_confirmation :: "bool option"
  resp_existing_count :: "int option"

text \<open>SQL's \<^verbatim>\<open>column IN (ids)\<close> on a nullable column: \<^verbatim>\<open>NULL\<close> never matches.\<close>

definition sql_in :: "int option \<Rightarrow> int list \<Rightarrow> bool" where
  "sql_in column ids = (case column of None \<Rightarrow> False | Some i \<Rightarrow> i \<in> set ids)"

definition regenerate_statuses :: "string list" where
  "regenerate_statuses = [''scheduled'', ''comp_off_taken'']"

text \<open>
  The block \<^verbatim>\<open>if existing_schedules and regenerate\<close>: select the ids of the
  department's rows in the range with status scheduled or comp_off_taken; when there are
  any, delete the attendance rows that reference them and null the references of
  check-ins and comp-off requests; then delete the schedule rows and commit.
\<close>

definition regenerate_clear :: "database \<Rightarrow> int \<Rightarrow> date \<Rightarrow> date \<Rightarrow> database" where
  "regenerate_clear db department_id start_date end_date =
     (let schedules_to_delete_ids =
            map sched_id (filter
              (\<lambda>s. sched_department_id s = department_id \<and>
                   sched_date s \<ge> start_date \<and>
                   sched_date s \<le> end_date \<and>
                   sched_status s \<in> set regenerate_statuses) (schedules db));
          db1 =
            (if schedules_to_delete_ids \<noteq> [] then db
               \<lparr>attendances :=
                  filter (\<lambda>a. \<not> sql_in (att_schedule_id a) schedules_to_delete_ids)
                    (attendances db),
                check_ins :=
                  map (\<lambda>c. if sql_in (cio_schedule_id c) schedules_to_delete_ids
                           then c\<lparr>cio_schedule_id := None\<rparr> else c) (check_ins db),
                comp_off_requests :=
                  map (\<lambda>c. if sql_in (cor_schedule_id c) schedules_to_delete_ids
                           then c\<lparr>cor_schedule_id := None\<rparr> else c) (comp_off_requests db)\<rparr>
             else db)
      in db1
           \<lparr>schedules :=
              filter (\<lambda>s. \<not> (sched_department_id s = department_id \<and>
                             sched_date s \<ge> start_date \<and>
                             sched_date s \<le> end_date \<and>
                             sched_status s \<in> set regenerate_statuses)) (schedules db1)\<rparr>)"

text \<open>
  The start of \<^verbatim>\<open>generate_schedules\<close>, up to the point where the assignment of
  shifts begins. \<open>department_id\<close> is the result of
  \<^verbatim>\<open>get_manager_department\<close>. The result is an error, or a response returned at
  once together with the database as the request leaves it, or no response yet and the
  database with which the generation goes on (it then only adds schedule rows).
\<close>

definition generate_schedules_begin ::
  "database \<Rightarrow> int option \<Rightarrow> date \<Rightarrow> date \<Rightarrow> bool \<Rightarrow>
   error + (generate_response option \<times> database)" where
  "generate_schedules_begin db department_id start_date end_date regenerate =
     (case department_id of
        None \<Rightarrow> Inl (HTTPException 400 ''Manager department not found'')
      | Some dept \<Rightarrow>
          if dept = 0 then Inl (HTTPException 400 ''Manager department not found'')
          else
            (let existing_schedules =
                   filter (\<lambda>s. sched_department_id s = dept \<and>
                                sched_date s \<ge> start_date \<and>
                                sched_date s \<le> end_date) (schedules db)
             in if existing_schedules \<noteq> [] \<and> \<not> regenerate then
                  Inr (Some \<lparr>resp_success = False,
                             resp_schedules_created = 0,
                             resp_requires_confirmation = Some True,
                             resp_existing_count = Some (int (length existing_schedules))\<rparr>,
                       db)
                else if existing_schedules \<noteq> [] \<and> regenerate then
                  Inr (None, regenerate_clear db dept start_date end_date)
                else Inr (None, db)))"

text \<open>
  What regeneration is specified to clear: the department's rows in the range with status
  scheduled or comp_off_taken; a reference (of an attendance, check-in or comp-off request
  row) to such a row; and the statuses that regeneration must preserve.
\<close>

definition cleared_by_regenerate :: "int \<Rightarrow> date \<Rightarrow> date \<Rightarrow> schedule \<Rightarrow> bool" where
  "cleared_by_regenerate department_id start_date end_date s \<longleftrightarrow>
     sched_department_id s = department_id \<and>
     start_date \<le> sched_date s \<and> sched_date s \<le> end_date \<and>
     (sched_status s = ''scheduled'' \<or> sched_status s = ''comp_off_taken'')"

definition references_cleared ::
  "schedule list \<Rightarrow> int \<Rightarrow> date \<Rightarrow> date \<Rightarrow> int option \<Rightarrow> bool" where
  "references_cleared rows department_id start_date end_date schedule_id \<longleftrightarrow>
     list_ex (\<lambda>s. cleared_by_regenerate department_id start_date end_date s \<and>
                  schedule_id = Some (sched_id s)) rows"

definition preserved_statuses :: "string list" where
  "preserved_statuses =
     [''leave'', ''leave_half_morning'', ''leave_half_afternoon'', ''comp_off_earned'']"

text \<open>
  Example database for the generator: department 1 holds, in the week from 2025-01-13,
  a scheduled, a leave, a comp_off_taken and a comp_off_earned row, and one scheduled
  row in the week after; attendance, check-in and comp-off request rows refer to them.
\<close>

definition regen_db :: database where
  "regen_db =
     \<lparr>schedules =
        [example_row 1 7 739265 ''scheduled'', example_row 2 7 739266 ''leave'',
         example_row 3 7 739267 ''comp_off_taken'', example_row 4 7 739269 ''comp_off_earned'',
         example_row 5 7 739272 ''scheduled''],
      attendances =
        [\<lparr>att_id = 1, att_employee_id = 7, att_schedule_id = Some 1, att_date = 739265,
          att_worked_hours = 8, att_overtime_hours = 0, att_break_minutes = 60\<rparr>,
         \<lparr>att_id = 2, att_employee_id = 7, att_schedule_id = Some 4, att_date = 739269,
          att_worked_hours = 8, att_overtime_hours = 0, att_break_minutes = 60\<rparr>],
      check_ins =
        [\<lparr>cio_id = 1, cio_employee_id = 7, cio_schedule_id = Some 1, cio_date = 739265\<rparr>],
      comp_off_requests =
        [\<lparr>cor_id = 1, cor_employee_id = 7, cor_comp_off_date = 739267, cor_reason = None,
          cor_status = APPROVED, cor_manager_id = Some 3, cor_review_notes = None,
          cor_schedule_id = Some 3\<rparr>],
      comp_off_trackings = [],
      comp_off_details = [],
      leave_requests = [],
      employees =
        [\<lparr>emp_id = 7, emp_department_id = 1, emp_role_id = Some 1, emp_user_id = Some 70,
          emp_first_name = ''A'', emp_last_name = ''B'', emp_daily_max_hours = 8\<rparr>],
      managers = [\<lparr>mgr_id = 3, mgr_user_id = 30, mgr_department_id = 1\<rparr>],
      overtime_trackings = []\<rparr>"

section \<open>Parsing \<^verbatim>\<open>HH:MM\<close> strings\<close>

text \<open>
  \<^verbatim>\<open>s.split(':')\<close> and \<^verbatim>\<open>int(s)\<close> on ASCII strings: \<^verbatim>\<open>int\<close> strips
  blanks, takes an optional sign and then digits, with single underscores allowed
  between digits; anything else raises \<^verbatim>\<open>ValueError\<close> (\<open>None\<close> here).
  \<^verbatim>\<open>h, m = map(int, s.split(':'))\<close> needs exactly two parts.
\<close>

fun split_on :: "char \<Rightarrow> string \<Rightarrow> string list" where
  "split_on sep [] = [[]]"
| "split_on sep (c # cs) =
     (if c = sep then [] # split_on sep cs
      else (case split_on sep cs of
              [] \<Rightarrow> [[c]]
            | w # ws \<Rightarrow> (c # w) # ws))"

definition is_space :: "char \<Rightarrow> bool" where
  "is_space c \<longleftrightarrow>
     (let n = (of_char c :: nat) in (9 \<le> n \<and> n \<le> 13) \<or> (28 \<le> n \<and> n \<le> 32))"

definition is_digit :: "char \<Rightarrow> bool" where
  "is_digit c \<longleftrightarrow> (let n = (of_char c :: nat) in 48 \<le> n \<and> n \<le> 57)"

definition strip :: "string \<Rightarrow> string" where
  "strip s = dropWhile is_space (rev (dropWhile is_space (rev s)))"

fun no_double_underscore :: "string \<Rightarrow> bool" where
  "no_double_underscore (a # b # cs) =
     (\<not> (a = CHR ''_'' \<and> b = CHR ''_'') \<and> no_double_underscore (b # cs))"
| "no_double_underscore _ = True"

definition valid_digits :: "string \<Rightarrow> bool" where
  "valid_digits s \<longleftrightarrow>
     s \<noteq> [] \<and> is_digit (hd s) \<and> is_digit (last s) \<and>
     list_all (\<lambda>c. is_digit c \<or> c = CHR ''_'') s \<and> no_double_underscore s"

definition digits_value :: "string \<Rightarrow> int" where
  "digits_value s =
     foldl (\<lambda>acc c. if c = CHR ''_'' then acc else 10 * acc + (int (of_char c) - 48)) 0 s"

definition py_int :: "string \<Rightarrow> int option" where
  "py_int s =
     (let t = strip s;
          negative = (t \<noteq> [] \<and> hd t = CHR ''-'');
          body = (if t \<noteq> [] \<and> (hd t = CHR ''-'' \<or> hd t = CHR ''+'') then tl t else t)
      in if valid_digits body
         then Some (if negative then - digits_value body else digits_value body)
         else None)"

definition parse_hm :: "string \<Rightarrow> (int \<times> int) option" where
  "parse_hm s =
     (case split_on CHR '':'' s of
        [a, b] \<Rightarrow>
          (case py_int a of
             None \<Rightarrow> None
           | Some h \<Rightarrow> (case py_int b of None \<Rightarrow> None | Some m \<Rightarrow> Some (h, m)))
      | _ \<Rightarrow> None)"

section \<open>Creating a schedule by hand (create_schedule)\<close>

text \<open>
  The hours of a shift as the handler computes them in each of its three
  \<^verbatim>\<open>try\<close> blocks, overnight shifts wrapping at 24; \<open>None\<close> when the block raises.
\<close>

definition span_hours :: "string option \<Rightarrow> string option \<Rightarrow> rat option" where
  "span_hours start_time end_time =
     (case start_time of
        None \<Rightarrow> None
      | Some st \<Rightarrow>
     (case parse_hm st of
        None \<Rightarrow> None
      | Some (start_h, start_m) \<Rightarrow>
     (case end_time of
        None \<Rightarrow> None
      | Some en \<Rightarrow>
     (case parse_hm en of
        None \<Rightarrow> None
      | Some (end_h, end_m) \<Rightarrow>
          (let start_decimal = fadd (float_of_int start_h) (fdiv (of_int start_m) 60);
               end_decimal = fadd (float_of_int end_h) (fdiv (of_int end_m) 60)
           in Some (if end_decimal > start_decimal then fsub end_decimal start_decimal
                    else fadd (fsub 24 start_decimal) end_decimal))))))"

text \<open>
  \<^verbatim>\<open>for sched in ...: try: ...; existing_hours += hours except: pass\<close>.
\<close>

fun sum_hours :: "schedule list \<Rightarrow> rat \<Rightarrow> rat" where
  "sum_hours [] existing_hours = existing_hours"
| "sum_hours (sched # rest) existing_hours =
     sum_hours rest
       (case span_hours (sched_start_time sched) (sched_end_time sched) of
          None \<Rightarrow> existing_hours
        | Some hours \<Rightarrow> fadd existing_hours hours)"

record schedule_create =
  sc_employee_id :: int
  sc_role_id :: "int option"
  sc_shift_id :: "int option"
  sc_date :: date
  sc_start_time :: string
  sc_end_time :: string
  sc_notes :: string

record overtime_payload =
  op_status :: string
  op_employee_id :: int
  op_employee_name :: string
  op_date :: date
  op_start_time :: string
  op_end_time :: string
  op_shift_hours :: rat
  op_overtime_hours :: rat
  op_total_daily_hours :: rat
  op_total_weekly_hours :: rat
  op_allocated_ot_hours :: rat
  op_used_ot_hours :: rat
  op_remaining_ot_hours :: rat
  op_has_sufficient_ot :: bool
  op_daily_overtime :: bool
  op_weekly_overtime :: bool

datatype create_schedule_result = OvertimeApprovalRequired overtime_payload | Created schedule

text \<open>
  The handler. \<open>module_globals\<close> gives the value of a name that the function reads
  without assigning it, when the module binds it: the weekly query reads
  \<^verbatim>\<open>week_start\<close> and \<^verbatim>\<open>week_end\<close>, which \<^verbatim>\<open>create_schedule\<close> never
  assigns. \<open>date_year\<close> and \<open>date_month\<close> are \<^verbatim>\<open>date.year\<close> and
  \<^verbatim>\<open>date.month\<close>. \<open>user_is_manager\<close> and \<open>manager_dept\<close> are the current
  user's type and the result of \<^verbatim>\<open>get_manager_department\<close>.
\<close>

definition create_schedule ::
  "(string \<Rightarrow> date option) \<Rightarrow> (date \<Rightarrow> bool) \<Rightarrow> (date \<Rightarrow> int) \<Rightarrow> (date \<Rightarrow> int) \<Rightarrow>
   database \<Rightarrow> bool \<Rightarrow> int option \<Rightarrow> schedule_create \<Rightarrow>
   error + (create_schedule_result \<times> database)" where
  "create_schedule module_globals is_holiday date_year date_month db user_is_manager
       manager_dept schedule_data =
     (case scalar_one_or_none
             (filter (\<lambda>e. emp_id e = sc_employee_id schedule_data) (employees db)) of
        Inl e \<Rightarrow> Inl e
      | Inr None \<Rightarrow> Inl (HTTPException 404 ''Employee not found'')
      | Inr (Some employee) \<Rightarrow>
     (if user_is_manager \<and>
         (manager_dept = None \<or> manager_dept = Some 0 \<or>
          Some (emp_department_id employee) \<noteq> manager_dept)
      then Inl (HTTPException 403 ''Can only schedule employees in your department'')
      else
     (let shift_hours =
            (case span_hours (Some (sc_start_time schedule_data))
                    (Some (sc_end_time schedule_data)) of
               None \<Rightarrow> 0
             | Some h \<Rightarrow> h)
      in
     (case validate_5_shifts_per_week is_holiday (schedules db)
             (sc_employee_id schedule_data) (sc_date schedule_data) None of
        (False, error_msg) \<Rightarrow> Inl (HTTPValidation 400 error_msg)
      | (True, _) \<Rightarrow>
     (case validate_consecutive_shifts_limit (schedules db)
             (sc_employee_id schedule_data) (sc_date schedule_data) None 5 of
        (False, error_msg) \<Rightarrow> Inl (HTTPValidation 400 error_msg)
      | (True, _) \<Rightarrow>
     (let overtime_required0 = (shift_hours > 8);
          daily_overtime0 = (shift_hours > 8);
          overtime_hours0 = (if shift_hours > 8 then fsub shift_hours 8 else 0);
          existing_schedules =
            filter (\<lambda>s. sched_employee_id s = sc_employee_id schedule_data \<and>
                         sched_date s = sc_date schedule_data) (schedules db);
          existing_hours = sum_hours existing_schedules 0;
          total_daily_hours = fadd existing_hours shift_hours;
          overtime_required1 = (overtime_required0 \<or> total_daily_hours > 8);
          daily_overtime = (daily_overtime0 \<or> total_daily_hours > 8);
          overtime_hours =
            (if total_daily_hours > 8 \<and> shift_hours \<le> 8 then fsub total_daily_hours 8
             else overtime_hours0)
      in
     (case module_globals ''week_start'' of
        None \<Rightarrow> Inl (NameError ''week_start'')
      | Some week_start \<Rightarrow>
     (case module_globals ''week_end'' of
        None \<Rightarrow> Inl (NameError ''week_end'')
      | Some week_end \<Rightarrow>
     (let week_schedules =
            filter (\<lambda>s. sched_employee_id s = sc_employee_id schedule_data \<and>
                         sched_date s \<ge> week_start \<and>
                         sched_date s \<le> week_end) (schedules db);
          existing_weekly_hours = sum_hours week_schedules 0;
          total_weekly_hours = fadd existing_weekly_hours shift_hours;
          weekly_overtime = (total_weekly_hours > 40);
          weekly_overtime_hours =
            (if total_weekly_hours > 40 then fsub total_weekly_hours 40 else 0);
          overtime_required = (overtime_required1 \<or> weekly_overtime)
      in if overtime_required then
     (case scalar_one_or_none
             (filter (\<lambda>t. ot_employee_id t = sc_employee_id schedule_data \<and>
                          ot_year t = date_year (sc_date schedule_data) \<and>
                          ot_month t = date_month (sc_date schedule_data))
                (overtime_trackings db)) of
        Inl e \<Rightarrow> Inl e
      | Inr found \<Rightarrow>
     (let tracking =
            (case found of
               Some t \<Rightarrow> t
             | None \<Rightarrow>
                 \<lparr>ot_id = next_id (map ot_id (overtime_trackings db)),
                  ot_employee_id = sc_employee_id schedule_data,
                  ot_month = date_month (sc_date schedule_data),
                  ot_year = date_year (sc_date schedule_data),
                  ot_allocated_hours = 8,
                  ot_used_hours = 0,
                  ot_remaining_hours = 8\<rparr>);
          db' =
            (case found of
               Some t \<Rightarrow> db
             | None \<Rightarrow> db\<lparr>overtime_trackings := overtime_trackings db @ [tracking]\<rparr>);
          total_overtime_hours = max overtime_hours weekly_overtime_hours
      in Inr (OvertimeApprovalRequired
            \<lparr>op_status = ''requires_overtime_approval'',
             op_employee_id = sc_employee_id schedule_data,
             op_employee_name = emp_first_name employee @ '' '' @ emp_last_name employee,
             op_date = sc_date schedule_data,
             op_start_time = sc_start_time schedule_data,
             op_end_time = sc_end_time schedule_data,
             op_shift_hours = shift_hours,
             op_overtime_hours = total_overtime_hours,
             op_total_daily_hours =
               (if total_daily_hours > 8 then total_daily_hours else shift_hours),
             op_total_weekly_hours = total_weekly_hours,
             op_allocated_ot_hours = ot_allocated_hours tracking,
             op_used_ot_hours = ot_used_hours tracking,
             op_remaining_ot_hours = ot_remaining_hours tracking,
             op_has_sufficient_ot = (ot_remaining_hours tracking \<ge> total_overtime_hours),
             op_daily_overtime = daily_overtime,
             op_weekly_overtime = weekly_overtime\<rparr>, db')))
      else
     (let schedule =
            \<lparr>sched_id = next_id (map sched_id (schedules db)),
             sched_department_id = emp_department_id employee,
             sched_employee_id = sc_employee_id schedule_data,
             sched_role_id = sc_role_id schedule_data,
             sched_shift_id = sc_shift_id schedule_data,
             sched_date = sc_date schedule_data,
             sched_start_time = Some (sc_start_time schedule_data),
             sched_end_time = Some (sc_end_time schedule_data),
             sched_status = ''scheduled'',
             sched_notes = sc_notes schedule_data\<rparr>
      in Inr (Created schedule, db\<lparr>schedules := schedules db @ [schedule]\<rparr>)))))))))))"

text \<open>
  main.py assigns \<^verbatim>\<open>week_start\<close> and \<^verbatim>\<open>week_end\<close> only inside other
  functions, and what it imports by name are classes and functions; its one wildcard
  import is the module of request and response schemas. At module level the two names
  are unbound.
\<close>

definition main_module_globals :: "string \<Rightarrow> date option" where
  "main_module_globals name = None"

text \<open>A request for employee 7 on Tuesday 2025-01-14.\<close>

definition day_shift_request :: "string \<Rightarrow> string \<Rightarrow> schedule_create" where
  "day_shift_request start_time end_time =
     \<lparr>sc_employee_id = 7, sc_role_id = Some 1, sc_shift_id = None, sc_date = 739265,
      sc_start_time = start_time, sc_end_time = end_time, sc_notes = []\<rparr>"

section \<open>Check-out: worked hours and overtime (check_out)\<close>

text \<open>
  A \<^verbatim>\<open>datetime\<close> is the number of microseconds since midnight of ordinal day 0.
  \<^verbatim>\<open>total_seconds()\<close> of a difference of two of them is the quotient of two
  \<^verbatim>\<open>int\<close>s, the microseconds and \<open>10\<^sup>6\<close>.
  \<^verbatim>\<open>datetime.combine(today, datetime.min.time().replace(hour=h, minute=m))\<close> raises
  \<^verbatim>\<open>ValueError\<close> unless \<open>0 \<le> h \<le> 23\<close> and \<open>0 \<le> m \<le> 59\<close>.
\<close>

type_synonym datetime = int

definition combine :: "date \<Rightarrow> int \<Rightarrow> int \<Rightarrow> datetime option" where
  "combine today h m =
     (if 0 \<le> h \<and> h \<le> 23 \<and> 0 \<le> m \<and> m \<le> 59
      then Some (today * 86400000000 + (h * 3600 + m * 60) * 1000000)
      else None)"

definition total_seconds :: "datetime \<Rightarrow> datetime \<Rightarrow> rat" where
  "total_seconds later earlier = fdiv (of_int (later - earlier)) 1000000"

record role =
  role_id :: int
  role_break_minutes :: "int option"

record overtime_request =
  otr_id :: int
  otr_employee_id :: int
  otr_request_date :: date
  otr_from_time :: "string option"
  otr_to_time :: "string option"
  otr_request_hours :: rat
  otr_status :: request_status

text \<open>\<^verbatim>\<open>if s:\<close> on an optional string.\<close>

definition truthy :: "string option \<Rightarrow> bool" where
  "truthy s = (case s of None \<Rightarrow> False | Some t \<Rightarrow> t \<noteq> [])"

text \<open>
  The body of the inner \<^verbatim>\<open>try\<close> for an approved request and a scheduled shift;
  \<open>None\<close> when it raises, in which case the \<^verbatim>\<open>except\<close> branch computes the
  result. \<^verbatim>\<open>attendance.overtime_hours\<close> is 0 before the block.
\<close>

definition overtime_in_window ::
  "date \<Rightarrow> datetime \<Rightarrow> schedule \<Rightarrow> overtime_request \<Rightarrow> rat \<Rightarrow> rat \<Rightarrow> rat option" where
  "overtime_in_window today check_out_time sched overtime_request worked_hours daily_max_hours =
     (case sched_end_time sched of
        None \<Rightarrow> None
      | Some shift_end_str \<Rightarrow>
     (case parse_hm shift_end_str of
        None \<Rightarrow> None
      | Some (shift_end_h, shift_end_m) \<Rightarrow>
     (case combine today shift_end_h shift_end_m of
        None \<Rightarrow> None
      | Some shift_end_time \<Rightarrow>
          if truthy (otr_from_time overtime_request) \<and> truthy (otr_to_time overtime_request)
          then
     (case parse_hm (the (otr_from_time overtime_request)) of
        None \<Rightarrow> None
      | Some (ot_start_h, ot_start_m) \<Rightarrow>
     (case parse_hm (the (otr_to_time overtime_request)) of
        None \<Rightarrow> None
      | Some (ot_end_h, ot_end_m) \<Rightarrow>
     (case combine today ot_start_h ot_start_m of
        None \<Rightarrow> None
      | Some ot_window_start \<Rightarrow>
     (case combine today ot_end_h ot_end_m of
        None \<Rightarrow> None
      | Some ot_window_end \<Rightarrow>
          (let ot_period_start = shift_end_time;
               ot_period_end = check_out_time;
               actual_ot_start = max ot_period_start ot_window_start;
               actual_ot_end = min ot_period_end ot_window_end
           in if actual_ot_end > actual_ot_start then
                (let actual_ot_minutes = fdiv (total_seconds actual_ot_end actual_ot_start) 60;
                     actual_ot_hours = fdiv actual_ot_minutes 60;
                     overtime_hours = min actual_ot_hours (otr_request_hours overtime_request)
                 in Some (py_round2 overtime_hours))
              else Some 0)))))
          else
            (let actual_overtime = fsub worked_hours daily_max_hours
             in if actual_overtime > 0
                then Some (py_round2 (min actual_overtime (otr_request_hours overtime_request)))
                else Some 0))))"

text \<open>
  The block ``Calculate worked hours and overtime'' of \<^verbatim>\<open>check_out\<close>, for a
  check-in with both times set. \<open>sched\<close> is \<^verbatim>\<open>check_in.schedule\<close> with its
  \<^verbatim>\<open>role\<close>. The result is \<^verbatim>\<open>(worked_hours, break_minutes, overtime_hours)\<close> as
  written to the attendance row; an exception leaves the attendance row unsaved.
\<close>

definition check_out_attendance ::
  "date \<Rightarrow> employee \<Rightarrow> datetime \<Rightarrow> datetime \<Rightarrow> (schedule \<times> role option) option \<Rightarrow>
   overtime_request list \<Rightarrow> error + (rat \<times> int \<times> rat)" where
  "check_out_attendance today employee check_in_time check_out_time sched overtime_requests =
     (let total_minutes = fdiv (total_seconds check_out_time check_in_time) 60;
          break_minutes =
            (case sched of
               None \<Rightarrow> 0
             | Some (s, None) \<Rightarrow> 0
             | Some (s, Some r) \<Rightarrow>
                 (let role_break = (case role_break_minutes r of None \<Rightarrow> 0 | Some b \<Rightarrow> b)
                  in if total_minutes \<ge> of_int role_break then role_break else 0));
          worked_minutes = max 0 (fsub total_minutes (float_of_int break_minutes));
          worked_hours = py_round2 (fdiv worked_minutes 60)
      in
     (case scalar_one_or_none
             (filter (\<lambda>r. otr_employee_id r = emp_id employee \<and>
                          otr_request_date r = today \<and>
                          otr_status r = APPROVED) overtime_requests) of
        Inl e \<Rightarrow> Inl e
      | Inr overtime_request \<Rightarrow>
          Inr (worked_hours, break_minutes,
            (case (overtime_request, sched) of
               (Some ot, Some (s, r)) \<Rightarrow>
                 (case overtime_in_window today check_out_time s ot worked_hours
                         (emp_daily_max_hours employee) of
                    Some overtime_hours \<Rightarrow> overtime_hours
                  | None \<Rightarrow>
                      (let actual_overtime = fsub worked_hours (emp_daily_max_hours employee)
                       in if actual_overtime > 0
                          then py_round2 (min actual_overtime (otr_request_hours ot))
                          else 0))
             | _ \<Rightarrow>
                 (if worked_hours > emp_daily_max_hours employee
                  then py_round2 (fsub worked_hours (emp_daily_max_hours employee))
                  else 0)))))"

text \<open>
  The overtime formula as the specification words it, in hours, and the same formula
  with the hours computed as the code computes them: the seconds of the overlap divided
  twice by 60 in double arithmetic.
\<close>

definition spec_overtime_hours ::
  "datetime \<Rightarrow> datetime \<Rightarrow> datetime \<Rightarrow> datetime \<Rightarrow> rat \<Rightarrow> rat" where
  "spec_overtime_hours checkout_time window_start window_end shift_end request_hours =
     min (max 0 (of_int (min checkout_time window_end - max shift_end window_start)
                   / 3600000000))
         request_hours"

definition float_overtime_hours ::
  "datetime \<Rightarrow> datetime \<Rightarrow> datetime \<Rightarrow> datetime \<Rightarrow> rat \<Rightarrow> rat" where
  "float_overtime_hours checkout_time window_start window_end shift_end request_hours =
     min (max 0 (fdiv (fdiv (total_seconds (min checkout_time window_end)
                               (max shift_end window_start)) 60) 60))
         request_hours"

text \<open>
  Example data for a check-out on Tuesday 2025-01-14 (ordinal 739265): an approved
  overtime request of employee 7 for the window 18:00 to 20:00, and a role with a
  60-minute break.
\<close>

definition ot_request :: "rat \<Rightarrow> overtime_request" where
  "ot_request hours =
     \<lparr>otr_id = 1, otr_employee_id = 7, otr_request_date = 739265,
      otr_from_time = Some ''18:00'', otr_to_time = Some ''20:00'',
      otr_request_hours = hours, otr_status = APPROVED\<rparr>"

definition employee_7 :: employee where
  "employee_7 =
     \<lparr>emp_id = 7, emp_department_id = 1, emp_role_id = Some 1, emp_user_id = Some 70,
      emp_first_name = ''A'', emp_last_name = ''B'', emp_daily_max_hours = 8\<rparr>"

definition role_60 :: role where
  "role_60 = \<lparr>role_id = 1, role_break_minutes = Some 60\<rparr>"

section \<open>Properties of the calendar\<close>

lemma count_weekday_holidays_filter:
  "count_weekday_holidays h c e n =
     n + int (length (filter (\<lambda>d. weekday d < 5 \<and> h d) [c..e]))"
proof (induction h c e n rule: count_weekday_holidays.induct)
  case (1 h c e n)
  show ?case
  proof (cases "c \<le> e")
    case True
    then have u: "[c..e] = c # [c + 1..e]"
      by (simp add: upto_rec1)
    from True "1.IH" show ?thesis
      by (subst count_weekday_holidays.simps) (simp add: u)
  next
    case False
    then show ?thesis
      by (subst count_weekday_holidays.simps) simp
  qed
qed

text \<open>
  C8. For a Monday \<open>week_start\<close>, the required number of shifts is
  \<open>max 4 (5 - h)\<close>, where \<open>h\<close> counts the Monday-to-Friday public holidays in
  \<open>[week_start, week_start + 6]\<close>.
\<close>

theorem required_shifts_for_week_formula:
  "weekday week_start = 0 \<Longrightarrow>
   get_shifts_required_for_week is_holiday week_start =
     max 4 (5 - weekday_holidays_in_week is_holiday week_start)"
  by (simp add: get_shifts_required_for_week_def weekday_holidays_in_week_def
      count_weekday_holidays_filter)

text \<open>
  The week of Monday 2025-05-05 (ordinal 739376) with its Monday and Tuesday public
  holidays: two weekday holidays, four shifts required.
\<close>

theorem required_shifts_for_week_formula_witness:
  "weekday 739376 = 0 \<and>
   weekday_holidays_in_week (\<lambda>d. d = 739376 \<or> d = 739377) 739376 = 2 \<and>
   get_shifts_required_for_week (\<lambda>d. d = 739376 \<or> d = 739377) 739376 = 4"
proof -
  have m: "weekday 739376 = 0"
    by (simp add: weekday_def)
  have u: "[739376..739382] = [739376, 739377, 739378, 739379, 739380, 739381, 739382]"
    by (simp add: upto_rec1)
  have h: "weekday_holidays_in_week (\<lambda>d. d = 739376 \<or> d = 739377) 739376 = 2"
    by (simp add: weekday_holidays_in_week_def u weekday_def)
  from required_shifts_for_week_formula [OF m, of "\<lambda>d. d = 739376 \<or> d = 739377"] h m
  show ?thesis by simp
qed

section \<open>Properties of the weekly-quota validator\<close>

lemma pg_dow_weekday: "pg_dow d \<in> set [1, 2, 3, 4, 5] \<longleftrightarrow> weekday d < 5"
  unfolding pg_dow_def weekday_def by (simp; presburger)

lemma pg_dow_weekend: "pg_dow d \<in> set [6, 0] \<longleftrightarrow> weekday d \<ge> 5"
  unfolding pg_dow_def weekday_def by (simp; presburger)

lemma weekday_monday_of: "weekday (monday_of d) = 0"
  unfolding monday_of_def weekday_def by presburger

lemma not_excluded_iff:
  "sched_id s \<noteq> 0 \<Longrightarrow> not_excluded ex s \<longleftrightarrow> Some (sched_id s) \<noteq> ex"
  by (auto simp: not_excluded_def split: option.splits)

lemma weekday_coverage_query_spec:
  assumes "\<forall>s \<in> set rows. sched_id s \<noteq> 0"
  shows "weekday_coverage_query rows e (monday_of t) (monday_of t + 6) ex =
         spec_weekday_coverage rows e t ex"
proof -
  have st: "set weekday_coverage_statuses =
      {''scheduled'', ''leave'', ''comp_off_taken'', ''comp_off_earned'',
       ''leave_half_morning'', ''leave_half_afternoon''}"
    by (simp add: weekday_coverage_statuses_def)
  have "filter (\<lambda>s. sched_employee_id s = e \<and>
            sched_date s \<ge> monday_of t \<and>
            sched_date s \<le> monday_of t + 6 \<and>
            sched_status s \<in> set weekday_coverage_statuses \<and>
            pg_dow (sched_date s) \<in> set [1, 2, 3, 4, 5] \<and>
            not_excluded ex s) rows =
        filter (\<lambda>s. sched_employee_id s = e \<and>
            monday_of t \<le> sched_date s \<and>
            sched_date s \<le> monday_of t + 6 \<and>
            weekday (sched_date s) < 5 \<and>
            sched_status s \<in> {''scheduled'', ''leave'', ''comp_off_taken'', ''comp_off_earned'',
                              ''leave_half_morning'', ''leave_half_afternoon''} \<and>
            Some (sched_id s) \<noteq> ex) rows"
  proof (rule filter_cong [OF refl])
    fix s assume "s \<in> set rows"
    with assms have "sched_id s \<noteq> 0" by blast
    then have ne: "not_excluded ex s \<longleftrightarrow> Some (sched_id s) \<noteq> ex"
      by (rule not_excluded_iff)
    show "(sched_employee_id s = e \<and>
            sched_date s \<ge> monday_of t \<and>
            sched_date s \<le> monday_of t + 6 \<and>
            sched_status s \<in> set weekday_coverage_statuses \<and>
            pg_dow (sched_date s) \<in> set [1, 2, 3, 4, 5] \<and>
            not_excluded ex s) =
         (sched_employee_id s = e \<and>
            monday_of t \<le> sched_date s \<and>
            sched_date s \<le> monday_of t + 6 \<and>
            weekday (sched_date s) < 5 \<and>
            sched_status s \<in> {''scheduled'', ''leave'', ''comp_off_taken'', ''comp_off_earned'',
                              ''leave_half_morning'', ''leave_half_afternoon''} \<and>
            Some (sched_id s) \<noteq> ex)"
      unfolding st pg_dow_weekday ne by blast
  qed
  then show ?thesis
    by (simp only: weekday_coverage_query_def spec_weekday_coverage_def)
qed

lemma weekend_regular_query_spec:
  assumes "\<forall>s \<in> set rows. sched_id s \<noteq> 0"
  shows "weekend_regular_query rows e (monday_of t) (monday_of t + 6) ex =
         spec_weekend_regular_shifts rows e t ex"
proof -
  have st: "set weekend_regular_statuses =
      {''scheduled'', ''leave'', ''leave_half_morning'', ''leave_half_afternoon''}"
    by (simp add: weekend_regular_statuses_def)
  have "filter (\<lambda>s. sched_employee_id s = e \<and>
            sched_date s \<ge> monday_of t \<and>
            sched_date s \<le> monday_of t + 6 \<and>
            sched_status s \<in> set weekend_regular_statuses \<and>
            pg_dow (sched_date s) \<in> set [6, 0] \<and>
            not_excluded ex s) rows =
        filter (\<lambda>s. sched_employee_id s = e \<and>
            monday_of t \<le> sched_date s \<and>
            sched_date s \<le> monday_of t + 6 \<and>
            weekday (sched_date s) \<ge> 5 \<and>
            sched_status s \<in> {''scheduled'', ''leave'', ''leave_half_morning'',
                              ''leave_half_afternoon''} \<and>
            Some (sched_id s) \<noteq> ex) rows"
  proof (rule filter_cong [OF refl])
    fix s assume "s \<in> set rows"
    with assms have "sched_id s \<noteq> 0" by blast
    then have ne: "not_excluded ex s \<longleftrightarrow> Some (sched_id s) \<noteq> ex"
      by (rule not_excluded_iff)
    show "(sched_employee_id s = e \<and>
            sched_date s \<ge> monday_of t \<and>
            sched_date s \<le> monday_of t + 6 \<and>
            sched_status s \<in> set weekend_regular_statuses \<and>
            pg_dow (sched_date s) \<in> set [6, 0] \<and>
            not_excluded ex s) =
         (sched_employee_id s = e \<and>
            monday_of t \<le> sched_date s \<and>
            sched_date s \<le> monday_of t + 6 \<and>
            weekday (sched_date s) \<ge> 5 \<and>
            sched_status s \<in> {''scheduled'', ''leave'', ''leave_half_morning'',
                              ''leave_half_afternoon''} \<and>
            Some (sched_id s) \<noteq> ex)"
      unfolding st pg_dow_weekend ne by blast
  qed
  then show ?thesis
    by (simp only: weekend_regular_query_def spec_weekend_regular_shifts_def)
qed

text \<open>
  C3. The weekly-shift-quota validator rejects exactly when the target is a weekend day
  and weekday coverage, or weekday coverage plus weekend regular shifts, has reached the
  required number, or the target is a weekday and weekday coverage has reached it. The
  required number is that of the Monday of the target week; the counts take the statuses
  and days the claim lists and leave out the row with id \<^verbatim>\<open>exclude_schedule_id\<close>.
  Row ids are database keys, never 0.
\<close>

theorem weekly_quota_decision:
  assumes "\<forall>s \<in> set rows. sched_id s \<noteq> 0"
  shows "\<not> fst (validate_5_shifts_per_week is_holiday rows employee_id target_date
                  exclude_schedule_id) \<longleftrightarrow>
    (let required = get_shifts_required_for_week is_holiday (monday_of target_date);
         weekday_coverage =
           spec_weekday_coverage rows employee_id target_date exclude_schedule_id;
         weekend_regular_shifts =
           spec_weekend_regular_shifts rows employee_id target_date exclude_schedule_id
     in (weekday target_date \<ge> 5 \<and>
           (weekday_coverage \<ge> required \<or>
            weekday_coverage + weekend_regular_shifts \<ge> required)) \<or>
        (weekday target_date < 5 \<and> weekday_coverage \<ge> required))"
proof -
  note q = weekday_coverage_query_spec [OF assms, unfolded monday_of_def]
    weekend_regular_query_spec [OF assms, unfolded monday_of_def]
  show ?thesis
    unfolding validate_5_shifts_per_week_def Let_def q
    by (auto simp: monday_of_def)
qed

text \<open>
  The week of Monday 2025-01-13 (a public holiday, ordinal 739264): four shifts are
  required, employee 7 is scheduled Tuesday to Friday, and a Saturday shift is refused.
\<close>

theorem weekly_quota_decision_witness:
  "list_all (\<lambda>s. sched_id s \<noteq> 0)
     [example_row 1 7 739265 ''scheduled'', example_row 2 7 739266 ''scheduled'',
      example_row 3 7 739267 ''scheduled'', example_row 4 7 739268 ''scheduled''] \<and>
   \<not> fst (validate_5_shifts_per_week (\<lambda>d. d = 739264)
     [example_row 1 7 739265 ''scheduled'', example_row 2 7 739266 ''scheduled'',
      example_row 3 7 739267 ''scheduled'', example_row 4 7 739268 ''scheduled'']
     7 739269 None)"
proof -
  let ?rows = "[example_row 1 7 739265 ''scheduled'', example_row 2 7 739266 ''scheduled'',
      example_row 3 7 739267 ''scheduled'', example_row 4 7 739268 ''scheduled'']"
  have h: "\<forall>s \<in> set ?rows. sched_id s \<noteq> 0"
    by (simp add: example_row_def)
  have m: "monday_of 739269 = 739264" "weekday 739269 = 5"
    by (simp_all add: monday_of_def weekday_def)
  have u: "[739264..739270] = [739264, 739265, 739266, 739267, 739268, 739269, 739270]"
    by (simp add: upto_rec1)
  have r: "get_shifts_required_for_week (\<lambda>d. d = 739264) 739264 = 4"
    by (simp add: get_shifts_required_for_week_def count_weekday_holidays_filter u weekday_def)
  have c: "spec_weekday_coverage ?rows 7 739269 None = 4"
    by (simp add: spec_weekday_coverage_def m example_row_def weekday_def)
  from weekly_quota_decision [OF h, of "\<lambda>d. d = 739264" 7 739269 None] h
  show ?thesis
    by (simp add: m r c)
qed

section \<open>Properties of the consecutive-shifts checks\<close>











text \<open>
  The generator's loop runs over the sorted dates with repetitions, and a repeated date
  restarts its counter: with Monday 2025-01-13 to Friday scheduled and Tuesday scheduled
  twice, Saturday passes the check and completes a run of six days. Hence the condition
  on the generator's part below that no two counted rows of the week share a date.
\<close>

lemma generator_check_misses_repeated_date:
  "generator_consecutive_check
     [example_row 1 7 739264 ''scheduled'', example_row 2 7 739265 ''scheduled'',
      example_row 3 7 739265 ''scheduled'', example_row 4 7 739266 ''scheduled'',
      example_row 5 7 739267 ''scheduled'', example_row 6 7 739268 ''scheduled'']
     7 739269 \<and>
   has_run (week_counted_dates generator_consecutive_statuses
     ([example_row 1 7 739264 ''scheduled'', example_row 2 7 739265 ''scheduled'',
       example_row 3 7 739265 ''scheduled'', example_row 4 7 739266 ''scheduled'',
       example_row 5 7 739267 ''scheduled'', example_row 6 7 739268 ''scheduled''] @
      [example_row 7 7 739269 ''scheduled'']) 7 739264) 739264 6"
proof -
  have m: "weekday 739269 = 5" "monday_of 739269 = 739264"
    by (simp_all add: weekday_def monday_of_def)
  have u: "[0..<6] = [0, 1, 2, 3, 4, 5]"
    by (simp add: upt_rec)
  show ?thesis
    by (simp add: generator_consecutive_check_def generator_week_dates_def m
        example_row_def generator_consecutive_statuses_def has_run_def u
        week_counted_dates_def)
qed




section \<open>Properties of approve_comp_off\<close>

lemma scalar_one_or_none_SomeD:
  assumes "scalar_one_or_none (filter P xs) = Inr (Some x)"
  shows "x \<in> set xs \<and> P x"
proof -
  from assms have "filter P xs = [x]"
    by (auto simp: scalar_one_or_none_def split: list.splits)
  then have "x \<in> set (filter P xs)" by simp
  then show ?thesis by simp
qed

lemma approve_comp_off_effect:
  assumes "approve_comp_off year_month db comp_off_id review_notes current_user_id = Inr db'"
  shows "\<exists>c s d. c \<in> set (comp_off_requests db) \<and> cor_id c = comp_off_id \<and>
           schedules db' = schedules db @ [s] \<and>
           sched_employee_id s = cor_employee_id c \<and>
           sched_date s = cor_comp_off_date c \<and>
           sched_status s = ''comp_off_taken'' \<and>
           sched_start_time s = None \<and> sched_end_time s = None \<and>
           comp_off_details db' = comp_off_details db @ [d] \<and>
           cod_type d = ''earned'' \<and>
           cod_earned_month d = year_month (cor_comp_off_date c)"
  using assms
  by (auto simp: approve_comp_off_def Let_def split: sum.splits option.splits
      dest!: scalar_one_or_none_SomeD)

text \<open>
  C1. The claim expects a \<^verbatim>\<open>comp_off_earned\<close> row carrying the employee's typical
  shift times. Evaluated on an employee who worked 09:00 to 18:00 from Monday to Friday
  of the same week, the handler adds a \<^verbatim>\<open>comp_off_taken\<close> row without times; the
  tracking row (earned days 1) and the detail row (type earned, month of the date) are
  as the claim says.
\<close>

theorem approve_comp_off_row_is_comp_off_taken:
  "approve_comp_off (\<lambda>d. ''2025-01'') (earning_db worked_week_rows) 1 None 30 =
     Inr ((earning_db worked_week_rows)
       \<lparr>schedules := worked_week_rows @
          [\<lparr>sched_id = 6, sched_department_id = 1, sched_employee_id = 7,
            sched_role_id = Some 1, sched_shift_id = None, sched_date = 739263,
            sched_start_time = None, sched_end_time = None,
            sched_status = ''comp_off_taken'',
            sched_notes = ''Comp-Off Earned: Worked on non-shift day''\<rparr>],
        comp_off_requests :=
          [\<lparr>cor_id = 1, cor_employee_id = 7, cor_comp_off_date = 739263, cor_reason = None,
            cor_status = APPROVED, cor_manager_id = Some 3, cor_review_notes = None,
            cor_schedule_id = Some 6\<rparr>],
        comp_off_trackings :=
          [\<lparr>cot_id = 1, cot_employee_id = 7, cot_earned_days = 1, cot_used_days = 0,
            cot_available_days = 1\<rparr>],
        comp_off_details :=
          [\<lparr>cod_id = 1, cod_employee_id = 7, cod_tracking_id = 1, cod_type = ''earned'',
            cod_date = 739263, cod_earned_month = ''2025-01''\<rparr>]\<rparr>)"
  by (simp add: approve_comp_off_def earning_db_def worked_week_rows_def example_row_def
      scalar_one_or_none_def next_id_def or_default_def)

text \<open>
  C2. The handler adds its row without looking for an existing one: an employee on
  leave that day has two rows that are not cancelled after the approval.
\<close>

theorem approve_comp_off_second_row_same_day:
  "(case approve_comp_off (\<lambda>d. ''2025-01'')
           (earning_db [example_row 1 7 739263 ''leave'']) 1 None 30 of
      Inl e \<Rightarrow> []
    | Inr db' \<Rightarrow>
        map sched_status
          (filter (\<lambda>s. sched_employee_id s = 7 \<and> sched_date s = 739263 \<and>
                       sched_status s \<noteq> ''cancelled'') (schedules db'))) =
   [''leave'', ''comp_off_taken'']"
  by (simp add: approve_comp_off_def earning_db_def example_row_def
      scalar_one_or_none_def next_id_def or_default_def)

section \<open>Properties of approve_leave\<close>

lemma fold_max_ge: "(a::int) \<le> fold max xs a"
  by (induction xs arbitrary: a) (auto intro: order_trans [OF max.cobounded2])

lemma fold_max_mem: "x \<in> set xs \<Longrightarrow> (x::int) \<le> fold max xs a"
proof (induction xs arbitrary: a)
  case Nil
  then show ?case by simp
next
  case (Cons y ys)
  show ?case
  proof (cases "x = y")
    case True
    have "y \<le> max y a" by simp
    also have "\<dots> \<le> fold max ys (max y a)" by (rule fold_max_ge)
    finally show ?thesis using True by simp
  next
    case False
    with Cons show ?thesis by simp
  qed
qed

lemma next_id_fresh: "x \<in> set ids \<Longrightarrow> x < next_id ids"
  using fold_max_mem [of x ids 0] by (simp add: next_id_def)

lemma schedules_fold_orm_delete:
  "schedules (fold orm_delete_schedule xs db) =
     filter (\<lambda>s. sched_id s \<notin> sched_id ` set xs) (schedules db)"
proof (induction xs arbitrary: db)
  case Nil
  then show ?case by simp
next
  case (Cons x xs)
  have "schedules (orm_delete_schedule x db) =
      filter (\<lambda>s. sched_id s \<noteq> sched_id x) (schedules db)"
    by (simp add: orm_delete_schedule_def)
  with Cons.IH [of "orm_delete_schedule x db"] show ?case
    by (auto intro: filter_cong)
qed

lemma delete_selected_by_id:
  assumes "distinct (map sched_id rows)"
  shows "filter (\<lambda>s. sched_id s \<notin> sched_id ` set (filter P rows)) rows =
         filter (\<lambda>s. \<not> P s) rows"
proof (rule filter_cong [OF refl])
  fix s assume s: "s \<in> set rows"
  have "sched_id s \<in> sched_id ` set (filter P rows) \<longleftrightarrow> P s"
  proof
    assume "sched_id s \<in> sched_id ` set (filter P rows)"
    then obtain r where r: "r \<in> set rows" "P r" "sched_id r = sched_id s" by auto
    with s assms have "r = s"
      by (metis distinct_map inj_on_def)
    with r show "P s" by simp
  next
    assume "P s"
    with s show "sched_id s \<in> sched_id ` set (filter P rows)" by auto
  qed
  then show "(sched_id s \<notin> sched_id ` set (filter P rows)) = (\<not> P s)" by simp
qed

lemma distinct_ids_filter:
  "distinct (map sched_id rows) \<Longrightarrow> distinct (map sched_id (filter P rows))"
  by (simp add: distinct_map_filter)

lemma comp_off_taken_loop_schedules:
  assumes "distinct (map sched_id (schedules db))"
  shows "\<exists>news.
     schedules (fst (comp_off_taken_loop db employee leave_request current_date n)) =
       filter (\<lambda>s. \<not> comp_off_replaced (emp_id employee) current_date
                       (lr_end_date leave_request) s) (schedules db) @ news \<and>
     map sched_date news = [current_date..lr_end_date leave_request] \<and>
     (\<forall>s \<in> set news. sched_employee_id s = emp_id employee \<and>
        sched_status s = ''comp_off_taken'' \<and>
        sched_start_time s = None \<and> sched_end_time s = None)"
  using assms
proof (induction db employee leave_request current_date n rule: comp_off_taken_loop.induct)
  case (1 db employee leave_request current_date n)
  let ?e = "lr_end_date leave_request"
  show ?case
  proof (cases "current_date \<le> ?e")
    case False
    then have "[current_date..?e] = []" by simp
    moreover from False have
      "filter (\<lambda>s. \<not> comp_off_replaced (emp_id employee) current_date ?e s) (schedules db) =
       schedules db"
      by (auto simp: comp_off_replaced_def intro!: filter_True)
    ultimately show ?thesis
      using False by (subst comp_off_taken_loop.simps) simp
  next
    case True
    let ?P = "\<lambda>s. sched_employee_id s = emp_id employee \<and> sched_date s = current_date \<and>
                sched_status s \<noteq> ''comp_off_taken'' \<and> sched_status s \<noteq> ''cancelled''"
    let ?ex = "filter ?P (schedules db)"
    let ?db1 = "fold orm_delete_schedule ?ex db"
    define new where "new = comp_off_schedule (next_id (map sched_id (schedules ?db1)))
                  employee leave_request current_date"
    let ?db2 = "?db1\<lparr>schedules := schedules ?db1 @ [new]\<rparr>"
    have s1: "schedules ?db1 = filter (\<lambda>s. \<not> ?P s) (schedules db)"
      using delete_selected_by_id [OF "1.prems", of ?P]
      by (simp only: schedules_fold_orm_delete)
    have d1: "distinct (map sched_id (schedules ?db1))"
      unfolding s1 using "1.prems" by (rule distinct_ids_filter)
    have "sched_id new = next_id (map sched_id (schedules ?db1))"
      by (simp add: new_def comp_off_schedule_def)
    then have fresh: "sched_id new \<notin> set (map sched_id (schedules ?db1))"
      using next_id_fresh [of "sched_id new" "map sched_id (schedules ?db1)"] by auto
    have s2: "schedules ?db2 = schedules ?db1 @ [new]"
      by simp
    have d2: "distinct (map sched_id (schedules ?db2))"
      unfolding s2 using d1 fresh by simp
    have step: "comp_off_taken_loop db employee leave_request current_date n =
        comp_off_taken_loop ?db2 employee leave_request (current_date + 1) (n + 1)"
      using True by (subst comp_off_taken_loop.simps) (simp add: Let_def new_def)
    from "1.IH" [OF True refl refl refl, folded new_def, OF d2]
    obtain news where
      a: "schedules (fst (comp_off_taken_loop ?db2 employee leave_request (current_date + 1)
            (n + 1))) =
          filter (\<lambda>s. \<not> comp_off_replaced (emp_id employee) (current_date + 1) ?e s)
            (schedules ?db2) @ news"
      and b: "map sched_date news = [current_date + 1..?e]"
      and c: "\<forall>s \<in> set news. sched_employee_id s = emp_id employee \<and>
        sched_status s = ''comp_off_taken'' \<and>
        sched_start_time s = None \<and> sched_end_time s = None"
      by blast
    have props: "sched_employee_id new = emp_id employee" "sched_status new = ''comp_off_taken''"
      "sched_start_time new = None" "sched_end_time new = None" "sched_date new = current_date"
      by (simp_all add: new_def comp_off_schedule_def)
    have keep: "filter (\<lambda>s. \<not> comp_off_replaced (emp_id employee) (current_date + 1) ?e s) [new]
        = [new]"
      by (simp add: comp_off_replaced_def props)
    have f: "filter (\<lambda>s. \<not> comp_off_replaced (emp_id employee) (current_date + 1) ?e s)
               (filter (\<lambda>s. \<not> ?P s) (schedules db)) =
             filter (\<lambda>s. \<not> comp_off_replaced (emp_id employee) current_date ?e s) (schedules db)"
      unfolding filter_filter
    proof (rule filter_cong [OF refl])
      fix s
      show "(\<not> ?P s \<and> \<not> comp_off_replaced (emp_id employee) (current_date + 1) ?e s) =
            (\<not> comp_off_replaced (emp_id employee) current_date ?e s)"
        using True by (auto simp: comp_off_replaced_def)
    qed
    have "schedules (fst (comp_off_taken_loop db employee leave_request current_date n)) =
        schedules (fst (comp_off_taken_loop ?db2 employee leave_request (current_date + 1)
            (n + 1)))"
      by (simp only: step)
    also have "\<dots> =
        filter (\<lambda>s. \<not> comp_off_replaced (emp_id employee) (current_date + 1) ?e s)
            (schedules ?db2) @ news"
      by (rule a)
    also have "\<dots> =
        (filter (\<lambda>s. \<not> comp_off_replaced (emp_id employee) (current_date + 1) ?e s)
            (schedules ?db1) @ [new]) @ news"
      by (simp only: s2 filter_append keep)
    also have "\<dots> =
        filter (\<lambda>s. \<not> comp_off_replaced (emp_id employee) current_date ?e s) (schedules db) @
          (new # news)"
      by (simp only: s1 f append_assoc append_Cons append_Nil)
    finally have "schedules (fst (comp_off_taken_loop db employee leave_request current_date n)) =
        filter (\<lambda>s. \<not> comp_off_replaced (emp_id employee) current_date ?e s) (schedules db) @
          (new # news)" .
    moreover have "map sched_date (new # news) = [current_date..?e]"
      using True b by (simp add: upto_rec1 props)
    moreover have "\<forall>s \<in> set (new # news). sched_employee_id s = emp_id employee \<and>
        sched_status s = ''comp_off_taken'' \<and>
        sched_start_time s = None \<and> sched_end_time s = None"
      using c by (simp add: props)
    ultimately show ?thesis by blast
  qed
qed

lemma scalar_one_or_none_unique:
  assumes "scalar_one_or_none (filter P xs) = Inr (Some x)" "y \<in> set xs" "P y"
  shows "y = x"
proof -
  from assms(1) have "filter P xs = [x]"
    by (auto simp: scalar_one_or_none_def split: list.splits)
  moreover from assms(2,3) have "y \<in> set (filter P xs)" by simp
  ultimately show ?thesis by simp
qed

lemma scalar_one_or_none_found:
  assumes "scalar_one_or_none (filter P xs) = Inr None" "y \<in> set xs" "P y"
  shows False
proof -
  from assms(1) have "filter P xs = []"
    by (auto simp: scalar_one_or_none_def split: list.splits)
  moreover from assms(2,3) have "y \<in> set (filter P xs)" by simp
  ultimately show ?thesis by simp
qed

text \<open>
  C10. A successful approval of a comp_off leave request of an existing employee removes
  every row of that employee on a day of the range whose status is neither
  \<^verbatim>\<open>comp_off_taken\<close> nor \<^verbatim>\<open>cancelled\<close> (scheduled, completed and leave rows
  included) and adds one \<^verbatim>\<open>comp_off_taken\<close> row without times per day; all other
  rows stay. Schedule ids are primary keys, hence distinct.
\<close>

theorem approve_leave_comp_off_replaces_rows:
  assumes ok: "approve_leave year_month today db leave_id review_notes current_user_id = Inr db'"
    and lr: "leave_request \<in> set (leave_requests db)" "lr_id leave_request = leave_id"
      "lr_leave_type leave_request = ''comp_off''"
    and emp: "employee \<in> set (employees db)" "emp_id employee = lr_employee_id leave_request"
    and ids: "distinct (map sched_id (schedules db))"
  shows "\<exists>news.
     schedules db' =
       filter (\<lambda>s. \<not> comp_off_replaced (lr_employee_id leave_request)
                       (lr_start_date leave_request) (lr_end_date leave_request) s)
         (schedules db) @ news \<and>
     map sched_date news = [lr_start_date leave_request..lr_end_date leave_request] \<and>
     (\<forall>s \<in> set news. sched_employee_id s = lr_employee_id leave_request \<and>
        sched_status s = ''comp_off_taken'' \<and>
        sched_start_time s = None \<and> sched_end_time s = None)"
proof -
  from ok obtain lr0 where l0:
    "scalar_one_or_none (filter (\<lambda>l. lr_id l = leave_id) (leave_requests db)) = Inr (Some lr0)"
    by (auto simp: approve_leave_def split: sum.splits option.splits)
  from scalar_one_or_none_unique [OF l0 lr(1,2)] have lr0: "lr0 = leave_request" by simp
  from ok l0 obtain m where m0:
    "scalar_one_or_none (filter (\<lambda>m. mgr_user_id m = current_user_id) (managers db)) =
       Inr (Some m)"
    by (auto simp: approve_leave_def split: sum.splits option.splits)
  define lr' where "lr' = leave_request
            \<lparr>lr_status := APPROVED,
             lr_manager_id := Some (mgr_id m),
             lr_review_notes := review_notes\<rparr>"
  define db0 where "db0 = db\<lparr>leave_requests :=
            map (\<lambda>l. if lr_id l = leave_id then lr' else l) (leave_requests db)\<rparr>"
  have lr'_simps: "lr_employee_id lr' = lr_employee_id leave_request"
    "lr_start_date lr' = lr_start_date leave_request"
    "lr_end_date lr' = lr_end_date leave_request"
    "lr_leave_type lr' = ''comp_off''"
    by (simp_all add: lr'_def lr(3))
  have db0_simps: "schedules db0 = schedules db" "employees db0 = employees db"
    by (simp_all add: db0_def)
  from ok l0 m0 obtain e0 where e0:
    "scalar_one_or_none
       (filter (\<lambda>e. emp_id e = lr_employee_id leave_request) (employees db)) = Inr (Some e0)"
    using scalar_one_or_none_found
      [of "\<lambda>e. emp_id e = lr_employee_id leave_request" "employees db" employee, OF _ emp]
    by (auto simp: approve_leave_def lr0 Let_def split: sum.splits option.splits)
  from scalar_one_or_none_SomeD [OF e0] have e0_id: "emp_id e0 = lr_employee_id leave_request"
    by simp
  obtain db2 n where loop:
    "comp_off_taken_loop (db0\<lparr>schedules := schedules db\<rparr>) e0 lr'
        (lr_start_date leave_request) 0 = (db2, n)"
    by (cases "comp_off_taken_loop (db0\<lparr>schedules := schedules db\<rparr>) e0 lr'
        (lr_start_date leave_request) 0")
  from ok have s: "schedules db' = schedules db2"
    unfolding approve_leave_def l0 m0 lr0
    by (auto simp: Let_def lr'_def [symmetric] db0_def [symmetric] lr'_simps db0_simps e0 loop
        split: sum.splits option.splits)
  have "distinct (map sched_id (schedules (db0\<lparr>schedules := schedules db\<rparr>)))"
    using ids by simp
  from comp_off_taken_loop_schedules [OF this, of e0 lr' "lr_start_date leave_request" 0]
  show ?thesis
    unfolding loop s by (simp add: e0_id lr'_simps)
qed

text \<open>
  Employee 7 is scheduled on Tuesday, on leave on Wednesday and scheduled on Thursday;
  employee 8 is scheduled on Tuesday. The approval replaces the first two rows.
\<close>

theorem approve_leave_comp_off_replaces_rows_witness:
  "(case approve_leave (\<lambda>d. ''2025-01'') 739264 leave_db 1 None 30 of
      Inl e \<Rightarrow> False
    | Inr db' \<Rightarrow>
        map (\<lambda>s. (sched_id s, sched_employee_id s, sched_date s, sched_status s)) (schedules db') =
          [(3, 7, 739267, ''scheduled''), (4, 8, 739265, ''scheduled''),
           (5, 7, 739265, ''comp_off_taken''), (6, 7, 739266, ''comp_off_taken'')] \<and>
        (\<exists>news.
           schedules db' =
             filter (\<lambda>s. \<not> comp_off_replaced 7 739265 739266 s) (schedules leave_db) @ news \<and>
           map sched_date news = [739265..739266] \<and>
           (\<forall>s \<in> set news. sched_employee_id s = 7 \<and>
              sched_status s = ''comp_off_taken'' \<and>
              sched_start_time s = None \<and> sched_end_time s = None)))"
proof -
  let ?lr = "\<lparr>lr_id = 1, lr_employee_id = 7, lr_start_date = 739265, lr_end_date = 739266,
          lr_leave_type = ''comp_off'', lr_duration_type = Some ''full_day'',
          lr_reason = None, lr_status = PENDING, lr_manager_id = None,
          lr_review_notes = None\<rparr>"
  let ?e = "\<lparr>emp_id = 7, emp_department_id = 1, emp_role_id = Some 1, emp_user_id = Some 70,
          emp_first_name = ''A'', emp_last_name = ''B'', emp_daily_max_hours = 8\<rparr>"
  have ev: "\<exists>db'. approve_leave (\<lambda>d. ''2025-01'') 739264 leave_db 1 None 30 = Inr db' \<and>
      map (\<lambda>s. (sched_id s, sched_employee_id s, sched_date s, sched_status s)) (schedules db') =
          [(3, 7, 739267, ''scheduled''), (4, 8, 739265, ''scheduled''),
           (5, 7, 739265, ''comp_off_taken''), (6, 7, 739266, ''comp_off_taken'')]"
    by (simp add: approve_leave_def leave_db_def example_row_def scalar_one_or_none_def
        comp_off_expiry_loop.simps comp_off_taken_loop.simps used_detail_loop.simps
        orm_delete_schedule_def comp_off_schedule_def next_id_def Let_def)
  then obtain db' where ok: "approve_leave (\<lambda>d. ''2025-01'') 739264 leave_db 1 None 30 = Inr db'"
    and rows: "map (\<lambda>s. (sched_id s, sched_employee_id s, sched_date s, sched_status s))
        (schedules db') =
          [(3, 7, 739267, ''scheduled''), (4, 8, 739265, ''scheduled''),
           (5, 7, 739265, ''comp_off_taken''), (6, 7, 739266, ''comp_off_taken'')]"
    by (elim exE conjE)
  have h1: "?lr \<in> set (leave_requests leave_db)" "?e \<in> set (employees leave_db)"
    and h2: "distinct (map sched_id (schedules leave_db))"
    by (simp_all add: leave_db_def example_row_def)
  from approve_leave_comp_off_replaces_rows [OF ok h1(1) _ _ h1(2) _ h2] rows
  show ?thesis
    by (simp add: ok)
qed

section \<open>Properties of the generator's pre-check and clearing\<close>

lemma regenerate_target_iff:
  "(sched_department_id s = d \<and> sched_date s \<ge> a \<and> sched_date s \<le> b \<and>
    sched_status s \<in> set regenerate_statuses) \<longleftrightarrow> cleared_by_regenerate d a b s"
  by (auto simp: cleared_by_regenerate_def regenerate_statuses_def)

lemma sql_in_cleared_ids:
  "sql_in ref (map sched_id (filter (cleared_by_regenerate d a b) rows)) \<longleftrightarrow>
   references_cleared rows d a b ref"
  by (cases ref) (auto simp: sql_in_def references_cleared_def list_ex_iff)

lemma regenerate_clear_eq:
  "regenerate_clear db d a b = db
     \<lparr>schedules := filter (\<lambda>s. \<not> cleared_by_regenerate d a b s) (schedules db),
      attendances :=
        filter (\<lambda>x. \<not> references_cleared (schedules db) d a b (att_schedule_id x))
          (attendances db),
      check_ins :=
        map (\<lambda>c. if references_cleared (schedules db) d a b (cio_schedule_id c)
                 then c\<lparr>cio_schedule_id := None\<rparr> else c) (check_ins db),
      comp_off_requests :=
        map (\<lambda>c. if references_cleared (schedules db) d a b (cor_schedule_id c)
                 then c\<lparr>cor_schedule_id := None\<rparr> else c) (comp_off_requests db)\<rparr>"
proof (cases "filter (cleared_by_regenerate d a b) (schedules db) = []")
  case True
  then have none: "\<And>ref. \<not> references_cleared (schedules db) d a b ref"
    by (auto simp: references_cleared_def list_ex_iff filter_empty_conv)
  have "map (\<lambda>c. c) (check_ins db) = check_ins db" "map (\<lambda>c. c) (comp_off_requests db) = comp_off_requests db"
    by simp_all
  with True none show ?thesis
    by (simp add: regenerate_clear_def regenerate_target_iff Let_def)
next
  case False
  then show ?thesis
    by (simp add: regenerate_clear_def regenerate_target_iff Let_def sql_in_cleared_ids)
qed

lemma nothing_to_clear:
  assumes "filter (\<lambda>s. sched_department_id s = d \<and> sched_date s \<ge> a \<and> sched_date s \<le> b)
             (schedules db) = []"
  shows "regenerate_clear db d a b = db"
proof -
  from assms have no: "\<And>s. s \<in> set (schedules db) \<Longrightarrow> \<not> cleared_by_regenerate d a b s"
    by (auto simp: filter_empty_conv cleared_by_regenerate_def)
  then have none: "\<And>ref. \<not> references_cleared (schedules db) d a b ref"
    by (auto simp: references_cleared_def list_ex_iff)
  have "filter (\<lambda>s. \<not> cleared_by_regenerate d a b s) (schedules db) = schedules db"
    using no by (simp add: filter_id_conv)
  then show ?thesis
    by (simp add: regenerate_clear_eq none)
qed

text \<open>
  C5. With \<^verbatim>\<open>regenerate=true\<close> the generator, before it assigns anything, removes
  exactly the department's schedule rows in the range with status scheduled or
  comp_off_taken, removes the attendance rows that refer to them and nulls the references
  of check-ins and comp-off requests to them; nothing else changes, and the rows with
  status leave, leave_half_morning, leave_half_afternoon or comp_off_earned are all kept
  as they were.
\<close>

theorem regenerate_clears_generated_rows_only:
  assumes "dept \<noteq> 0"
  shows "\<exists>db'. generate_schedules_begin db (Some dept) start_date end_date True = Inr (None, db') \<and>
     db' = db
       \<lparr>schedules :=
          filter (\<lambda>s. \<not> cleared_by_regenerate dept start_date end_date s) (schedules db),
        attendances :=
          filter (\<lambda>x. \<not> references_cleared (schedules db) dept start_date end_date
                         (att_schedule_id x)) (attendances db),
        check_ins :=
          map (\<lambda>c. if references_cleared (schedules db) dept start_date end_date
                        (cio_schedule_id c)
                   then c\<lparr>cio_schedule_id := None\<rparr> else c) (check_ins db),
        comp_off_requests :=
          map (\<lambda>c. if references_cleared (schedules db) dept start_date end_date
                        (cor_schedule_id c)
                   then c\<lparr>cor_schedule_id := None\<rparr> else c) (comp_off_requests db)\<rparr> \<and>
     filter (\<lambda>s. sched_status s \<in> set preserved_statuses) (schedules db') =
     filter (\<lambda>s. sched_status s \<in> set preserved_statuses) (schedules db)"
proof -
  have keep: "filter (\<lambda>s. sched_status s \<in> set preserved_statuses)
        (filter (\<lambda>s. \<not> cleared_by_regenerate dept start_date end_date s) (schedules db)) =
      filter (\<lambda>s. sched_status s \<in> set preserved_statuses) (schedules db)"
    unfolding filter_filter
    by (rule filter_cong [OF refl]) (auto simp: cleared_by_regenerate_def preserved_statuses_def)
  show ?thesis
  proof (cases "filter (\<lambda>s. sched_department_id s = dept \<and> sched_date s \<ge> start_date \<and>
                 sched_date s \<le> end_date) (schedules db) = []")
    case True
    with assms have "generate_schedules_begin db (Some dept) start_date end_date True =
        Inr (None, regenerate_clear db dept start_date end_date)"
      by (simp add: generate_schedules_begin_def nothing_to_clear)
    then show ?thesis
      by (simp add: regenerate_clear_eq keep [unfolded filter_filter])
  next
    case False
    with assms have "generate_schedules_begin db (Some dept) start_date end_date True =
        Inr (None, regenerate_clear db dept start_date end_date)"
      by (simp add: generate_schedules_begin_def)
    then show ?thesis
      by (simp add: regenerate_clear_eq keep [unfolded filter_filter])
  qed
qed

theorem regenerate_clears_generated_rows_only_witness:
  "(1::int) \<noteq> 0 \<and>
   generate_schedules_begin regen_db (Some 1) 739264 739270 True =
     Inr (None, regen_db
       \<lparr>schedules :=
          [example_row 2 7 739266 ''leave'', example_row 4 7 739269 ''comp_off_earned'',
           example_row 5 7 739272 ''scheduled''],
        attendances :=
          [\<lparr>att_id = 2, att_employee_id = 7, att_schedule_id = Some 4, att_date = 739269,
            att_worked_hours = 8, att_overtime_hours = 0, att_break_minutes = 60\<rparr>],
        check_ins :=
          [\<lparr>cio_id = 1, cio_employee_id = 7, cio_schedule_id = None, cio_date = 739265\<rparr>],
        comp_off_requests :=
          [\<lparr>cor_id = 1, cor_employee_id = 7, cor_comp_off_date = 739267, cor_reason = None,
            cor_status = APPROVED, cor_manager_id = Some 3, cor_review_notes = None,
            cor_schedule_id = None\<rparr>]\<rparr>)"
proof -
  have h: "(1::int) \<noteq> 0" by simp
  from regenerate_clears_generated_rows_only [OF h, of regen_db 739264 739270]
  show ?thesis
    by (simp add: regen_db_def example_row_def cleared_by_regenerate_def
        references_cleared_def)
qed

text \<open>
  C9. With \<^verbatim>\<open>regenerate=false\<close> and at least one schedule row of the department in
  the range, the generator returns the confirmation response with the number of those
  rows and leaves the database as it was.
\<close>

theorem generate_without_regenerate_asks_confirmation:
  assumes "dept \<noteq> 0"
    and "filter (\<lambda>s. sched_department_id s = dept \<and> start_date \<le> sched_date s \<and>
                     sched_date s \<le> end_date) (schedules db) \<noteq> []"
  shows "generate_schedules_begin db (Some dept) start_date end_date False =
     Inr (Some \<lparr>resp_success = False,
                resp_schedules_created = 0,
                resp_requires_confirmation = Some True,
                resp_existing_count = Some (int (length (filter
                  (\<lambda>s. sched_department_id s = dept \<and> start_date \<le> sched_date s \<and>
                       sched_date s \<le> end_date) (schedules db))))\<rparr>,
          db)"
  using assms by (simp add: generate_schedules_begin_def)

theorem generate_without_regenerate_asks_confirmation_witness:
  "(1::int) \<noteq> 0 \<and>
   generate_schedules_begin regen_db (Some 1) 739264 739270 False =
     Inr (Some \<lparr>resp_success = False, resp_schedules_created = 0,
                resp_requires_confirmation = Some True, resp_existing_count = Some 4\<rparr>,
          regen_db)"
proof -
  have h: "(1::int) \<noteq> 0" by simp
  have e: "filter (\<lambda>s. sched_department_id s = 1 \<and> 739264 \<le> sched_date s \<and>
                     sched_date s \<le> 739270) (schedules regen_db) =
      [example_row 1 7 739265 ''scheduled'', example_row 2 7 739266 ''leave'',
       example_row 3 7 739267 ''comp_off_taken'', example_row 4 7 739269 ''comp_off_earned'']"
    by (simp add: regen_db_def example_row_def)
  have n: "filter (\<lambda>s. sched_department_id s = 1 \<and> 739264 \<le> sched_date s \<and>
                     sched_date s \<le> 739270) (schedules regen_db) \<noteq> []"
    by (simp add: e)
  from generate_without_regenerate_asks_confirmation [OF h n]
  show ?thesis
    by (simp add: e)
qed

section \<open>Properties of the double arithmetic\<close>

lemma bit_length_numeral:
  "bit_length (numeral (Num.Bit0 k)) = bit_length (numeral k) + 1"
  "bit_length (numeral (Num.Bit1 k)) = bit_length (numeral k) + 1"
  "bit_length 1 = 1" "bit_length 0 = 0" "bit_length (Suc 0) = 1"
  by (subst bit_length.simps, simp add: numeral_Bit0_div_2 numeral_Bit1_div_2)+

lemma pow2_pos: "0 < pow2 e"
  by (simp add: pow2_def)

lemma pow2_powi: "pow2 e = 2 powi e"
  by (simp add: pow2_def power_int_def inverse_eq_divide power_one_over)

lemma pow2_diff: "pow2 a / pow2 (a - int k) = 2 ^ k"
  by (simp add: pow2_powi power_int_diff [symmetric])

lemma pow2_less_cancel: "pow2 a < pow2 b \<Longrightarrow> a < b"
proof (rule ccontr)
  assume l: "pow2 a < pow2 b" and "\<not> a < b"
  then have "b \<le> a" by simp
  then have "pow2 b \<le> pow2 a"
    unfolding pow2_powi by (rule power_int_increasing) simp
  with l show False by simp
qed

lemma bit_length_pos: "0 < n \<Longrightarrow> bit_length n = bit_length (n div 2) + 1"
  by (subst bit_length.simps) simp

lemma bit_length_lower: "0 < n \<Longrightarrow> 2 ^ (bit_length n - 1) \<le> n"
proof (induction n rule: bit_length.induct)
  case (1 n)
  show ?case
  proof (cases "n div 2 = 0")
    case True
    with "1.prems" have "n = 1" by presburger
    then show ?thesis by (simp add: bit_length_numeral)
  next
    case False
    with "1.IH" "1.prems" have ih: "2 ^ (bit_length (n div 2) - 1) \<le> n div 2" by simp
    from False have "bit_length (n div 2) = bit_length (n div 2 div 2) + 1"
      by (intro bit_length_pos) simp
    then obtain j where j: "bit_length (n div 2) = Suc j" by simp
    have "2 * (n div 2) \<le> n" by simp
    with ih j have "2 ^ Suc j \<le> n" by simp
    then show ?thesis
      using bit_length_pos [OF "1.prems"] j by simp
  qed
qed

lemma bit_length_upper: "n < 2 ^ bit_length n"
proof (induction n rule: bit_length.induct)
  case (1 n)
  show ?case
  proof (cases "n = 0")
    case True
    then show ?thesis by simp
  next
    case False
    with "1.IH" have "n div 2 < 2 ^ bit_length (n div 2)" by simp
    then have "n < 2 * 2 ^ bit_length (n div 2)" by linarith
    then show ?thesis
      using False bit_length_pos [of n] by simp
  qed
qed

lemma pow2_le_of_nat: "2 ^ j \<le> n \<Longrightarrow> (2::rat) ^ j \<le> of_nat n"
  by (metis of_nat_le_iff of_nat_numeral of_nat_power)

lemma of_nat_Suc_le_pow2: "n + 1 \<le> 2 ^ j \<Longrightarrow> (of_nat n :: rat) + 1 \<le> 2 ^ j"
  by (metis of_nat_le_iff of_nat_numeral of_nat_power of_nat_add of_nat_1)

lemma nat_floor_bounds:
  fixes x :: rat
  assumes "0 \<le> x"
  shows "of_nat (nat \<lfloor>x\<rfloor>) \<le> x" "x < of_nat (nat \<lfloor>x\<rfloor>) + 1"
proof -
  from assms have "0 \<le> \<lfloor>x\<rfloor>" by simp
  then have e: "(of_nat (nat \<lfloor>x\<rfloor>) :: rat) = of_int \<lfloor>x\<rfloor>" by simp
  show "of_nat (nat \<lfloor>x\<rfloor>) \<le> x"
    unfolding e by (rule of_int_floor_le)
  show "x < of_nat (nat \<lfloor>x\<rfloor>) + 1"
    unfolding e by linarith
qed

lemma floor_log2_bounds:
  assumes "0 < q"
  shows "pow2 (floor_log2 q) \<le> q \<and> q < pow2 (floor_log2 q + 1)"
proof (cases "1 \<le> q")
  case True
  define n where "n = nat \<lfloor>q\<rfloor>"
  from True have n0: "0 < n"
    by (simp add: n_def)
  from True have "0 \<le> q" by simp
  then have nq: "of_nat n \<le> q" "q < of_nat n + 1"
    unfolding n_def by (rule nat_floor_bounds)+
  obtain j where j: "bit_length n = Suc j"
    using bit_length_pos [OF n0] by simp
  have fl: "floor_log2 q = int j"
    using True by (simp add: floor_log2_def n_def [symmetric] j)
  have "2 ^ j \<le> n"
    using bit_length_lower [OF n0] j by simp
  then have "(2::rat) ^ j \<le> of_nat n"
    by (rule pow2_le_of_nat)
  with nq(1) have "(2::rat) ^ j \<le> q" by linarith
  then have lo: "pow2 (int j) \<le> q"
    by (simp add: pow2_def)
  have "n + 1 \<le> 2 ^ Suc j"
    using bit_length_upper [of n] j by simp
  then have "(of_nat n :: rat) + 1 \<le> 2 ^ Suc j"
    by (rule of_nat_Suc_le_pow2)
  with nq(2) have "q < 2 ^ Suc j" by linarith
  then have hi: "q < pow2 (int j + 1)"
    by (simp add: pow2_def nat_add_distrib)
  from lo hi show ?thesis by (simp add: fl)
next
  case False
  with assms have r1: "1 < 1 / q" by simp
  define n where "n = nat \<lfloor>1 / q\<rfloor>"
  from r1 have n0: "0 < n"
    by (simp add: n_def)
  from r1 have "0 \<le> 1 / q" by linarith
  then have nq: "of_nat n \<le> 1 / q" "1 / q < of_nat n + 1"
    unfolding n_def by (rule nat_floor_bounds)+
  obtain j where j: "bit_length n = Suc j"
    using bit_length_pos [OF n0] by simp
  have p1: "pow2 (1 - int (Suc j)) = 1 / 2 ^ j" "pow2 (- int (Suc j)) = 1 / 2 ^ Suc j"
    by (auto simp: pow2_def nat_add_distrib)
  have "2 ^ j \<le> n"
    using bit_length_lower [OF n0] j by simp
  then have "(2::rat) ^ j \<le> of_nat n"
    by (rule pow2_le_of_nat)
  with nq(1) have "2 ^ j \<le> 1 / q" by linarith
  with assms have up1: "q \<le> 1 / 2 ^ j"
    by (simp add: field_simps)
  have "n + 1 \<le> 2 ^ Suc j"
    using bit_length_upper [of n] j by simp
  then have "(of_nat n :: rat) + 1 \<le> 2 ^ Suc j"
    by (rule of_nat_Suc_le_pow2)
  with nq(2) have "1 / q < 2 ^ Suc j" by linarith
  with assms have lo2: "1 / 2 ^ Suc j < q"
    by (simp add: field_simps)
  show ?thesis
  proof (cases "pow2 (1 - int (Suc j)) \<le> q")
    case True
    then have fl: "floor_log2 q = 1 - int (Suc j)"
      using False by (simp add: floor_log2_def n_def [symmetric] j Let_def)
    have "pow2 (1 - int (Suc j)) < pow2 (1 - int (Suc j) + 1)"
      unfolding pow2_powi by (rule power_int_strict_increasing) simp_all
    then have "1 / 2 ^ j < pow2 (1 - int (Suc j) + 1)"
      by (simp only: p1(1))
    with up1 True show ?thesis
      unfolding fl by simp
  next
    case nb: False
    then have fl: "floor_log2 q = - int (Suc j)"
      using False by (simp add: floor_log2_def n_def [symmetric] j Let_def)
    have a: "pow2 (- int (Suc j)) \<le> q"
      using lo2 unfolding p1(2) by (rule less_imp_le)
    have e: "- int (Suc j) + 1 = 1 - int (Suc j)" by simp
    from nb have b: "q < pow2 (1 - int (Suc j))" by (simp only: not_le)
    from a b show ?thesis
      unfolding fl e by (rule conjI)
  qed
qed

lemma floor_log2_unique:
  assumes "0 < q" "pow2 k \<le> q" "q < pow2 (k + 1)"
  shows "floor_log2 q = k"
proof -
  from floor_log2_bounds [OF assms(1)]
  have b: "pow2 (floor_log2 q) \<le> q" "q < pow2 (floor_log2 q + 1)" by simp_all
  from b(1) assms(3) have "pow2 (floor_log2 q) < pow2 (k + 1)" by simp
  then have "floor_log2 q < k + 1" by (rule pow2_less_cancel)
  moreover from assms(2) b(2) have "pow2 k < pow2 (floor_log2 q + 1)" by simp
  then have "k < floor_log2 q + 1" by (rule pow2_less_cancel)
  ultimately show ?thesis by simp
qed

lemma round_half_even_ge: "of_int k \<le> y \<Longrightarrow> k \<le> round_half_even y"
proof -
  assume "of_int k \<le> y"
  then have "k \<le> \<lfloor>y\<rfloor>" by (simp add: le_floor_iff)
  then show ?thesis by (simp add: round_half_even_def Let_def)
qed

lemma round_half_even_eq:
  assumes "\<bar>y - of_int m\<bar> < 1 / 2"
  shows "round_half_even y = m"
proof (cases "of_int m \<le> y")
  case True
  with assms have "\<lfloor>y\<rfloor> = m"
    by (intro floor_unique) (simp_all add: abs_less_iff)
  with True assms show ?thesis
    by (simp add: round_half_even_def Let_def abs_less_iff)
next
  case False
  with assms have f: "\<lfloor>y\<rfloor> = m - 1"
    by (intro floor_unique) (simp_all add: abs_less_iff)
  from False assms have "\<not> y - of_int (m - 1) < 1 / 2" "y - of_int (m - 1) > 1 / 2"
    by (simp_all add: abs_less_iff)
  then show ?thesis
    by (simp add: round_half_even_def Let_def f)
qed

lemma to_double_eq:
  assumes "0 < q" "pow2 k \<le> q" "q < pow2 (k + 1)"
    and "\<bar>q / pow2 (k - 52) - of_int m\<bar> < 1 / 2"
    and "r = of_int m * pow2 (k - 52)"
  shows "to_double q = r"
proof -
  have "floor_log2 \<bar>q\<bar> = k"
    using assms(1-3) by (intro floor_log2_unique) simp_all
  moreover have "round_half_even (\<bar>q\<bar> / pow2 (k - 52)) = m"
    using assms(1,4) by (intro round_half_even_eq) simp
  ultimately show ?thesis
    using assms(1,5) by (simp add: to_double_def Let_def)
qed

lemma to_double_0: "to_double 0 = 0"
  by (simp add: to_double_def)

lemma to_double_pos:
  assumes "0 < q"
  shows "0 < to_double q"
proof -
  define e where "e = floor_log2 q - 52"
  have "pow2 (floor_log2 q) / pow2 e \<le> q / pow2 e"
    using floor_log2_bounds [OF assms] pow2_pos [of e] by (simp add: divide_right_mono)
  then have "2 ^ 52 \<le> q / pow2 e"
    unfolding e_def using pow2_diff [of "floor_log2 q" 52] by simp
  then have "of_int 1 \<le> q / pow2 e" by simp
  then have "1 \<le> round_half_even (q / pow2 e)" by (rule round_half_even_ge)
  then have "0 < of_int (round_half_even (q / pow2 e)) * pow2 e"
    using pow2_pos [of e] by simp
  with assms show ?thesis
    by (simp add: to_double_def e_def Let_def)
qed

lemma to_double_nonpos:
  assumes "q \<le> 0"
  shows "to_double q \<le> 0"
proof (cases "q = 0")
  case True
  then show ?thesis by (simp add: to_double_def)
next
  case False
  with assms have neg: "q < 0" by simp
  define e where "e = floor_log2 \<bar>q\<bar> - 52"
  have "of_int 0 \<le> \<bar>q\<bar> / pow2 e"
    using pow2_pos [of e] by simp
  then have "0 \<le> round_half_even (\<bar>q\<bar> / pow2 e)" by (rule round_half_even_ge)
  then have "0 \<le> of_int (round_half_even (\<bar>q\<bar> / pow2 e)) * pow2 e"
    using pow2_pos [of e] by simp
  with neg show ?thesis
    by (simp add: to_double_def e_def Let_def mult.assoc)
qed

text \<open>The rounding to a double changes a value by at most one part in \<open>2 ^ 53\<close>.\<close>

lemma round_half_even_near: "\<bar>of_int (round_half_even y) - y\<bar> \<le> 1 / 2"
proof -
  have "of_int \<lfloor>y\<rfloor> \<le> y" "y < of_int \<lfloor>y\<rfloor> + 1"
    by linarith+
  then show ?thesis
    by (auto simp: round_half_even_def Let_def abs_le_iff)
qed

lemma to_double_error:
  assumes "0 < q"
  shows "\<bar>to_double q - q\<bar> \<le> q / 9007199254740992"
proof -
  define e where "e = floor_log2 q - 52"
  define y where "y = q / pow2 e"
  define m where "m = round_half_even y"
  have p: "0 < pow2 e" by (rule pow2_pos)
  have t: "to_double q = of_int m * pow2 e"
    using assms by (simp add: to_double_def Let_def e_def y_def m_def)
  have q: "q = y * pow2 e"
    using p by (simp add: y_def)
  have "to_double q - q = (of_int m - y) * pow2 e"
    using p by (simp add: t y_def field_simps)
  then have "\<bar>to_double q - q\<bar> = \<bar>of_int m - y\<bar> * pow2 e"
    using p by (simp add: abs_mult)
  also have "\<dots> \<le> 1 / 2 * pow2 e"
    using round_half_even_near [of y] p unfolding m_def
    by (intro mult_right_mono) simp_all
  finally have a: "\<bar>to_double q - q\<bar> \<le> pow2 e / 2" by simp
  have "pow2 (floor_log2 q) / pow2 e \<le> q / pow2 e"
    using floor_log2_bounds [OF assms] p by (simp add: divide_right_mono)
  then have "2 ^ 52 \<le> q / pow2 e"
    unfolding e_def using pow2_diff [of "floor_log2 q" 52] by simp
  then have "pow2 e * 4503599627370496 \<le> q"
    using p by (simp add: field_simps)
  with a show ?thesis by linarith
qed

lemma py_round2_0: "py_round2 0 = 0"
  by (simp add: py_round2_def round_half_even_def to_double_0)

text \<open>
  The doubles and the roundings met in the examples below, each by the uniqueness of the
  exponent and of the nearest mantissa.
\<close>

lemma td_37800: "to_double (37800) = 37800"
  by (rule to_double_eq [where k = "15" and m = 5195192441241600]) (simp_all add: pow2_def)

lemma td_630: "to_double (630) = 630"
  by (rule to_double_eq [where k = "9" and m = 5541538603991040]) (simp_all add: pow2_def)

lemma td_60: "to_double (60) = 60"
  by (rule to_double_eq [where k = "5" and m = 8444249301319680]) (simp_all add: pow2_def)

lemma td_570: "to_double (570) = 570"
  by (rule to_double_eq [where k = "9" and m = 5013773022658560]) (simp_all add: pow2_def)

lemma td_19_2: "to_double (19 / 2) = 19 / 2"
  by (rule to_double_eq [where k = "3" and m = 5348024557502464]) (simp_all add: pow2_def)

lemma pr_19_2: "py_round2 (19 / 2) = 19 / 2"
proof -
  have h: "round_half_even (19 / 2 * 100) = 950"
    by (rule round_half_even_eq) simp
  show ?thesis
    unfolding py_round2_def h by (simp add: td_19_2)
qed

lemma td_5400: "to_double (5400) = 5400"
  by (rule to_double_eq [where k = "12" and m = 5937362789990400]) (simp_all add: pow2_def)

lemma td_90: "to_double (90) = 90"
  by (rule to_double_eq [where k = "6" and m = 6333186975989760]) (simp_all add: pow2_def)

lemma td_3_2: "to_double (3 / 2) = 3 / 2"
  by (rule to_double_eq [where k = "0" and m = 6755399441055744]) (simp_all add: pow2_def)

lemma pr_3_2: "py_round2 (3 / 2) = 3 / 2"
proof -
  have h: "round_half_even (3 / 2 * 100) = 150"
    by (rule round_half_even_eq) simp
  show ?thesis
    unfolding py_round2_def h by (simp add: td_3_2)
qed

lemma td_33000: "to_double (33000) = 33000"
  by (rule to_double_eq [where k = "15" and m = 4535485464576000]) (simp_all add: pow2_def)

lemma td_550: "to_double (550) = 550"
  by (rule to_double_eq [where k = "9" and m = 4837851162214400]) (simp_all add: pow2_def)

lemma td_490: "to_double (490) = 490"
  by (rule to_double_eq [where k = "8" and m = 8620171161763840]) (simp_all add: pow2_def)

lemma td_49_6: "to_double (49 / 6) = 4597424619607381 / 562949953421312"
  by (rule to_double_eq [where k = "3" and m = 4597424619607381]) (simp_all add: pow2_def)

lemma td_817_100: "to_double (817 / 100) = 4599301119452119 / 562949953421312"
  by (rule to_double_eq [where k = "3" and m = 4599301119452119]) (simp_all add: pow2_def)

lemma pr_4597424619607381_562949953421312: "py_round2 (4597424619607381 / 562949953421312) = 4599301119452119 / 562949953421312"
proof -
  have h: "round_half_even (4597424619607381 / 562949953421312 * 100) = 817"
    by (rule round_half_even_eq) simp
  show ?thesis
    unfolding py_round2_def h by (simp add: td_817_100)
qed

lemma td_600: "to_double (600) = 600"
  by (rule to_double_eq [where k = "9" and m = 5277655813324800]) (simp_all add: pow2_def)

lemma td_10: "to_double (10) = 10"
  by (rule to_double_eq [where k = "3" and m = 5629499534213120]) (simp_all add: pow2_def)

lemma td_1_6: "to_double (1 / 6) = 6004799503160661 / 36028797018963968"
  by (rule to_double_eq [where k = "-3" and m = 6004799503160661]) (simp_all add: pow2_def)

lemma td_17_100: "to_double (17 / 100) = 6124895493223875 / 36028797018963968"
  by (rule to_double_eq [where k = "-3" and m = 6124895493223875]) (simp_all add: pow2_def)

lemma pr_6004799503160661_36028797018963968: "py_round2 (6004799503160661 / 36028797018963968) = 6124895493223875 / 36028797018963968"
proof -
  have h: "round_half_even (6004799503160661 / 36028797018963968 * 100) = 17"
    by (rule round_half_even_eq) simp
  show ?thesis
    unfolding py_round2_def h by (simp add: td_17_100)
qed

lemma td_32490: "to_double (32490) = 32490"
  by (rule to_double_eq [where k = "14" and m = 8930783196610560]) (simp_all add: pow2_def)

lemma td_1083_2: "to_double (1083 / 2) = 1083 / 2"
  by (rule to_double_eq [where k = "9" and m = 4763084371525632]) (simp_all add: pow2_def)

lemma td_963_2: "to_double (963 / 2) = 963 / 2"
  by (rule to_double_eq [where k = "8" and m = 8470637580386304]) (simp_all add: pow2_def)

lemma td_321_40: "to_double (321 / 40) = 4517673376206029 / 562949953421312"
  by (rule to_double_eq [where k = "3" and m = 4517673376206029]) (simp_all add: pow2_def)

lemma td_803_100: "to_double (803 / 100) = 4520488125973135 / 562949953421312"
  by (rule to_double_eq [where k = "3" and m = 4520488125973135]) (simp_all add: pow2_def)

lemma pr_4517673376206029_562949953421312: "py_round2 (4517673376206029 / 562949953421312) = 4520488125973135 / 562949953421312"
proof -
  have h: "round_half_even (4517673376206029 / 562949953421312 * 100) = 803"
    by (rule round_half_even_eq) simp
  show ?thesis
    unfolding py_round2_def h by (simp add: td_803_100)
qed

lemma td_1_40: "to_double (1 / 40) = 3602879701896397 / 144115188075855872"
  by (rule to_double_eq [where k = "-6" and m = 7205759403792794]) (simp_all add: pow2_def)

lemma td_3_100: "to_double (3 / 100) = 1080863910568919 / 36028797018963968"
  by (rule to_double_eq [where k = "-6" and m = 8646911284551352]) (simp_all add: pow2_def)

lemma pr_3602879701896397_144115188075855872: "py_round2 (3602879701896397 / 144115188075855872) = 1080863910568919 / 36028797018963968"
proof -
  have h: "round_half_even (3602879701896397 / 144115188075855872 * 100) = 3"
    by (rule round_half_even_eq) simp
  show ?thesis
    unfolding py_round2_def h by (simp add: td_3_100)
qed

lemma td_32670: "to_double (32670) = 32670"
  by (rule to_double_eq [where k = "14" and m = 8980261219860480]) (simp_all add: pow2_def)

lemma td_1089_2: "to_double (1089 / 2) = 1089 / 2"
  by (rule to_double_eq [where k = "9" and m = 4789472650592256]) (simp_all add: pow2_def)

lemma td_969_2: "to_double (969 / 2) = 969 / 2"
  by (rule to_double_eq [where k = "8" and m = 8523414138519552]) (simp_all add: pow2_def)

lemma td_323_40: "to_double (323 / 40) = 2272910436938547 / 281474976710656"
  by (rule to_double_eq [where k = "3" and m = 4545820873877094]) (simp_all add: pow2_def)

lemma td_807_100: "to_double (807 / 100) = 1135751531027497 / 140737488355328"
  by (rule to_double_eq [where k = "3" and m = 4543006124109988]) (simp_all add: pow2_def)

lemma pr_2272910436938547_281474976710656: "py_round2 (2272910436938547 / 281474976710656) = 1135751531027497 / 140737488355328"
proof -
  have h: "round_half_even (2272910436938547 / 281474976710656 * 100) = 807"
    by (rule round_half_even_eq) simp
  show ?thesis
    unfolding py_round2_def h by (simp add: td_807_100)
qed

lemma td_270: "to_double (270) = 270"
  by (rule to_double_eq [where k = "8" and m = 4749890231992320]) (simp_all add: pow2_def)

lemma td_9_2: "to_double (9 / 2) = 9 / 2"
  by (rule to_double_eq [where k = "2" and m = 5066549580791808]) (simp_all add: pow2_def)

lemma td_3_40: "to_double (3 / 40) = 5404319552844595 / 72057594037927936"
  by (rule to_double_eq [where k = "-4" and m = 5404319552844595]) (simp_all add: pow2_def)

lemma td_7_100: "to_double (7 / 100) = 1261007895663739 / 18014398509481984"
  by (rule to_double_eq [where k = "-4" and m = 5044031582654956]) (simp_all add: pow2_def)

lemma pr_5404319552844595_72057594037927936: "py_round2 (5404319552844595 / 72057594037927936) = 1261007895663739 / 18014398509481984"
proof -
  have h: "round_half_even (5404319552844595 / 72057594037927936 * 100) = 7"
    by (rule round_half_even_eq) simp
  show ?thesis
    unfolding py_round2_def h by (simp add: td_7_100)
qed

lemma td_32418: "to_double (32418) = 32418"
  by (rule to_double_eq [where k = "14" and m = 8910991987310592]) (simp_all add: pow2_def)

lemma td_5403_10: "to_double (5403 / 10) = 2376264529949491 / 4398046511104"
  by (rule to_double_eq [where k = "9" and m = 4752529059898982]) (simp_all add: pow2_def)

lemma td_2112381739283251_4398046511104: "to_double (2112381739283251 / 4398046511104) = 2112381739283251 / 4398046511104"
  by (rule to_double_eq [where k = "8" and m = 8449526957133004]) (simp_all add: pow2_def)

lemma td_2112381739283251_263882790666240: "to_double (2112381739283251 / 263882790666240) = 2253207188568801 / 281474976710656"
  by (rule to_double_eq [where k = "3" and m = 4506414377137602]) (simp_all add: pow2_def)

lemma td_8: "to_double (8) = 8"
  by (rule to_double_eq [where k = "3" and m = 4503599627370496]) (simp_all add: pow2_def)

lemma pr_2253207188568801_281474976710656: "py_round2 (2253207188568801 / 281474976710656) = 8"
proof -
  have h: "round_half_even (2253207188568801 / 281474976710656 * 100) = 800"
    by (rule round_half_even_eq) simp
  show ?thesis
    unfolding py_round2_def h by (simp add: td_8)
qed

lemma td_18: "to_double (18) = 18"
  by (rule to_double_eq [where k = "4" and m = 5066549580791808]) (simp_all add: pow2_def)

lemma td_3_10: "to_double (3 / 10) = 5404319552844595 / 18014398509481984"
  by (rule to_double_eq [where k = "-2" and m = 5404319552844595]) (simp_all add: pow2_def)

lemma td_1080863910568919_216172782113783808: "to_double (1080863910568919 / 216172782113783808) = 5764607523034235 / 1152921504606846976"
  by (rule to_double_eq [where k = "-8" and m = 5764607523034235]) (simp_all add: pow2_def)

lemma td_1_100: "to_double (1 / 100) = 5764607523034235 / 576460752303423488"
  by (rule to_double_eq [where k = "-7" and m = 5764607523034235]) (simp_all add: pow2_def)

lemma pr_5764607523034235_1152921504606846976: "py_round2 (5764607523034235 / 1152921504606846976) = 5764607523034235 / 576460752303423488"
proof -
  have h: "round_half_even (5764607523034235 / 1152921504606846976 * 100) = 1"
    by (rule round_half_even_eq) simp
  show ?thesis
    unfolding py_round2_def h by (simp add: td_1_100)
qed

lemma td_9: "to_double (9) = 9"
  by (rule to_double_eq [where k = "3" and m = 5066549580791808]) (simp_all add: pow2_def)

lemma td_19: "to_double (19) = 19"
  by (rule to_double_eq [where k = "4" and m = 5348024557502464]) (simp_all add: pow2_def)

lemma td_2: "to_double (2) = 2"
  by (rule to_double_eq [where k = "1" and m = 4503599627370496]) (simp_all add: pow2_def)

lemma td_294235175654872405_36028797018963968: "to_double (294235175654872405 / 36028797018963968) = 4597424619607381 / 562949953421312"
  by (rule to_double_eq [where k = "3" and m = 4597424619607381]) (simp_all add: pow2_def)

lemma td_16: "to_double (16) = 16"
  by (rule to_double_eq [where k = "4" and m = 4503599627370496]) (simp_all add: pow2_def)

lemma td_582465551806584149_36028797018963968: "to_double (582465551806584149 / 36028797018963968) = 4550512123488939 / 281474976710656"
  by (rule to_double_eq [where k = "4" and m = 4550512123488939]) (simp_all add: pow2_def)

lemma td_4503599627370497_562949953421312: "to_double (4503599627370497 / 562949953421312) = 4503599627370497 / 562949953421312"
  by (rule to_double_eq [where k = "3" and m = 4503599627370497]) (simp_all add: pow2_def)

lemma td_1_562949953421312: "to_double (1 / 562949953421312) = 1 / 562949953421312"
  by (rule to_double_eq [where k = "-49" and m = 4503599627370496]) (simp_all add: pow2_def)

section \<open>Properties of create_schedule\<close>

lemma parse_0900: "parse_hm ''09:00'' = Some (9, 0)"
  by (simp add: parse_hm_def py_int_def strip_def is_space_def valid_digits_def is_digit_def
      digits_value_def)

lemma parse_1700: "parse_hm ''17:00'' = Some (17, 0)"
  by (simp add: parse_hm_def py_int_def strip_def is_space_def valid_digits_def is_digit_def
      digits_value_def)

lemma parse_1900: "parse_hm ''19:00'' = Some (19, 0)"
  by (simp add: parse_hm_def py_int_def strip_def is_space_def valid_digits_def is_digit_def
      digits_value_def)

lemma create_schedule_unbound_week_start:
  assumes "scalar_one_or_none
             (filter (\<lambda>e. emp_id e = sc_employee_id schedule_data) (employees db)) =
           Inr (Some employee)"
    and "\<not> (user_is_manager \<and>
         (manager_dept = None \<or> manager_dept = Some 0 \<or>
          Some (emp_department_id employee) \<noteq> manager_dept))"
    and "fst (validate_5_shifts_per_week is_holiday (schedules db)
             (sc_employee_id schedule_data) (sc_date schedule_data) None)"
    and "fst (validate_consecutive_shifts_limit (schedules db)
             (sc_employee_id schedule_data) (sc_date schedule_data) None 5)"
  shows "create_schedule main_module_globals is_holiday date_year date_month db
           user_is_manager manager_dept schedule_data = Inl (NameError ''week_start'')"
  using assms
  by (auto simp: create_schedule_def main_module_globals_def Let_def
      split: prod.splits bool.splits)

lemma create_schedule_if_week_were_bound:
  assumes "scalar_one_or_none
             (filter (\<lambda>e. emp_id e = sc_employee_id schedule_data) (employees db)) =
           Inr (Some employee)"
    and "\<not> (user_is_manager \<and>
         (manager_dept = None \<or> manager_dept = Some 0 \<or>
          Some (emp_department_id employee) \<noteq> manager_dept))"
    and "fst (validate_5_shifts_per_week is_holiday (schedules db)
             (sc_employee_id schedule_data) (sc_date schedule_data) None)"
    and "fst (validate_consecutive_shifts_limit (schedules db)
             (sc_employee_id schedule_data) (sc_date schedule_data) None 5)"
    and "module_globals ''week_start'' = Some week_start"
    and "module_globals ''week_end'' = Some week_end"
    and "create_schedule module_globals is_holiday date_year date_month db
           user_is_manager manager_dept schedule_data = Inr (res, db')"
  shows "(case res of
            OvertimeApprovalRequired p \<Rightarrow>
              op_status p = ''requires_overtime_approval'' \<and> schedules db' = schedules db
          | Created s \<Rightarrow>
              sched_status s = ''scheduled'' \<and> schedules db' = schedules db @ [s])"
  using assms
  by (auto simp: create_schedule_def Let_def
      split: prod.splits bool.splits if_splits sum.splits option.splits)

lemma parse_0810: "parse_hm ''08:10'' = Some (8, 10)"
  by (simp add: parse_hm_def py_int_def strip_def is_space_def valid_digits_def is_digit_def
      digits_value_def)

lemma parse_1610: "parse_hm ''16:10'' = Some (16, 10)"
  by (simp add: parse_hm_def py_int_def strip_def is_space_def valid_digits_def is_digit_def
      digits_value_def)

text \<open>
  The hours are those of the double arithmetic: 09:00 to 19:00 is 10 hours, and 08:10 to
  16:10 is \<^verbatim>\<open>8.000000000000002\<close> hours, which is more than 8.
\<close>

lemma span_hours_examples:
  "span_hours (Some ''09:00'') (Some ''19:00'') = Some 10"
  "span_hours (Some ''08:10'') (Some ''16:10'') = Some (4503599627370497 / 562949953421312)"
  "(8::rat) < 4503599627370497 / 562949953421312"
  by (simp_all add: span_hours_def parse_0900 parse_1900 parse_0810 parse_1610
      float_of_int_def fadd_def fsub_def fdiv_def to_double_0 td_9 td_19 td_10 td_8 td_16
      td_1_6 td_294235175654872405_36028797018963968
      td_582465551806584149_36028797018963968 td_4503599627370497_562949953421312)

lemma create_schedule_bound_example:
  "(case create_schedule (\<lambda>n. if n = ''week_start'' then Some 739264 else Some 739270)
      (\<lambda>d. False) (\<lambda>d. 2025) (\<lambda>d. 1) (earning_db [])
      True (Some 1) (day_shift_request ''09:00'' ''19:00'') of
      Inr (OvertimeApprovalRequired p, db') \<Rightarrow> op_overtime_hours p = 2 \<and> op_daily_overtime p
    | _ \<Rightarrow> False)"
  by (simp add: create_schedule_def Let_def scalar_one_or_none_def earning_db_def
      day_shift_request_def validate_5_shifts_per_week_def weekday_def
      weekday_coverage_query_def weekend_regular_query_def get_shifts_required_for_week_def
      count_weekday_holidays_filter upto_rec1 validate_consecutive_shifts_limit_def
      consecutive_query_def span_hours_examples(1) next_id_def fadd_def fsub_def
      to_double_0 td_10 td_2)

text \<open>
  With the same binding a shift from 08:10 to 16:10, eight hours on the clock, is sent to
  overtime approval as well, for \<^verbatim>\<open>1.7763568394002505e-15\<close> hours.
\<close>

lemma create_schedule_bound_example_eight_hours:
  "(case create_schedule (\<lambda>n. if n = ''week_start'' then Some 739264 else Some 739270)
      (\<lambda>d. False) (\<lambda>d. 2025) (\<lambda>d. 1) (earning_db [])
      True (Some 1) (day_shift_request ''08:10'' ''16:10'') of
      Inr (OvertimeApprovalRequired p, db') \<Rightarrow>
        op_overtime_hours p = 1 / 562949953421312 \<and> op_daily_overtime p
    | _ \<Rightarrow> False)"
  by (simp add: create_schedule_def Let_def scalar_one_or_none_def earning_db_def
      day_shift_request_def validate_5_shifts_per_week_def weekday_def
      weekday_coverage_query_def weekend_regular_query_def get_shifts_required_for_week_def
      count_weekday_holidays_filter upto_rec1 validate_consecutive_shifts_limit_def
      consecutive_query_def span_hours_examples(2) next_id_def fadd_def fsub_def
      to_double_0 td_4503599627370497_562949953421312 td_1_562949953421312)

text \<open>
  C6. Every request that passes the two validators reaches the weekly query, which reads
  the unbound names: for an 8-hour shift (the claim expects a scheduled row) and for a
  10-hour shift (the claim expects the overtime payload) alike, the handler raises
  \<^verbatim>\<open>NameError\<close>.
\<close>

theorem create_schedule_raises_name_error:
  "create_schedule main_module_globals (\<lambda>d. False) (\<lambda>d. 2025) (\<lambda>d. 1) (earning_db [])
     True (Some 1) (day_shift_request ''09:00'' ''17:00'') = Inl (NameError ''week_start'') \<and>
   create_schedule main_module_globals (\<lambda>d. False) (\<lambda>d. 2025) (\<lambda>d. 1) (earning_db [])
     True (Some 1) (day_shift_request ''09:00'' ''19:00'') = Inl (NameError ''week_start'')"
proof -
  have e: "scalar_one_or_none
      (filter (\<lambda>e. emp_id e = sc_employee_id (day_shift_request a b)) (employees (earning_db []))) =
      Inr (Some \<lparr>emp_id = 7, emp_department_id = 1, emp_role_id = Some 1, emp_user_id = Some 70,
          emp_first_name = ''A'', emp_last_name = ''B'', emp_daily_max_hours = 8\<rparr>)" for a b
    by (simp add: scalar_one_or_none_def earning_db_def day_shift_request_def)
  have u: "[739264..739270] = [739264, 739265, 739266, 739267, 739268, 739269, 739270]"
    by (simp add: upto_rec1)
  have v1: "fst (validate_5_shifts_per_week (\<lambda>d. False) (schedules (earning_db []))
      (sc_employee_id (day_shift_request a b)) (sc_date (day_shift_request a b)) None)" for a b
    by (simp add: validate_5_shifts_per_week_def earning_db_def day_shift_request_def
        weekday_def weekday_coverage_query_def weekend_regular_query_def
        get_shifts_required_for_week_def count_weekday_holidays_filter u)
  have v2: "fst (validate_consecutive_shifts_limit (schedules (earning_db []))
      (sc_employee_id (day_shift_request a b)) (sc_date (day_shift_request a b)) None 5)" for a b
    by (simp add: validate_consecutive_shifts_limit_def earning_db_def day_shift_request_def
        weekday_def consecutive_query_def)
  show ?thesis
    using create_schedule_unbound_week_start [OF e _ v1 v2, of True "Some 1"]
    by simp
qed

section \<open>Properties of the check-out calculation\<close>

lemma parse_1800: "parse_hm ''18:00'' = Some (18, 0)"
  by (simp add: parse_hm_def py_int_def strip_def is_space_def valid_digits_def is_digit_def
      digits_value_def)

lemma parse_2000: "parse_hm ''20:00'' = Some (20, 0)"
  by (simp add: parse_hm_def py_int_def strip_def is_space_def valid_digits_def is_digit_def
      digits_value_def)

text \<open>
  The hours between two instants, as the code computes them, have the sign of the
  difference and are within one part in \<open>2 ^ 51\<close> of the exact hours.
\<close>

lemma float_hours_pos:
  assumes "earlier < later"
  shows "0 < fdiv (fdiv (total_seconds later earlier) 60) 60"
proof -
  from assms have "(0::rat) < of_int (later - earlier) / 1000000" by simp
  then have "0 < total_seconds later earlier"
    unfolding total_seconds_def fdiv_def by (rule to_double_pos)
  then have "0 < total_seconds later earlier / 60" by simp
  then have "0 < fdiv (total_seconds later earlier) 60"
    unfolding fdiv_def by (rule to_double_pos)
  then have "0 < fdiv (total_seconds later earlier) 60 / 60" by simp
  then show ?thesis
    unfolding fdiv_def by (rule to_double_pos)
qed

lemma float_hours_nonpos:
  assumes "later \<le> earlier"
  shows "fdiv (fdiv (total_seconds later earlier) 60) 60 \<le> 0"
proof -
  from assms have "of_int (later - earlier) / 1000000 \<le> (0::rat)"
    by (simp add: divide_le_0_iff)
  then have "total_seconds later earlier \<le> 0"
    unfolding total_seconds_def fdiv_def by (rule to_double_nonpos)
  then have "total_seconds later earlier / 60 \<le> 0"
    by (simp add: divide_le_0_iff)
  then have "fdiv (total_seconds later earlier) 60 \<le> 0"
    unfolding fdiv_def by (rule to_double_nonpos)
  then have "fdiv (total_seconds later earlier) 60 / 60 \<le> 0"
    by (simp add: divide_le_0_iff)
  then show ?thesis
    unfolding fdiv_def by (rule to_double_nonpos)
qed

lemma float_hours_error:
  assumes "earlier < later"
  shows "\<bar>fdiv (fdiv (total_seconds later earlier) 60) 60 -
           of_int (later - earlier) / 3600000000\<bar>
         \<le> of_int (later - earlier) / 3600000000 / 2251799813685248"
proof -
  define d :: rat where "d = of_int (later - earlier) / 1000000"
  define s where "s = to_double d"
  define m where "m = to_double (s / 60)"
  define h where "h = to_double (m / 60)"
  from assms have d: "0 < d" by (simp add: d_def)
  then have s: "0 < s" unfolding s_def by (rule to_double_pos)
  then have "0 < s / 60" by simp
  then have m: "0 < m" unfolding m_def by (rule to_double_pos)
  have a: "\<bar>s - d\<bar> \<le> d / 9007199254740992"
    unfolding s_def using d by (rule to_double_error)
  have b: "\<bar>m - s / 60\<bar> \<le> s / 60 / 9007199254740992"
    unfolding m_def using s by (intro to_double_error) simp
  have c: "\<bar>h - m / 60\<bar> \<le> m / 60 / 9007199254740992"
    unfolding h_def using m by (intro to_double_error) simp
  from a b c d have "\<bar>h - d / 3600\<bar> \<le> d / 3600 / 2251799813685248"
    by linarith
  then show ?thesis
    by (simp add: h_def m_def s_def d_def fdiv_def total_seconds_def)
qed

text \<open>
  The formula in double arithmetic differs from the specification's exact formula by at
  most one part in \<open>2 ^ 51\<close> of the overlap.
\<close>

lemma float_overtime_hours_error:
  "\<bar>float_overtime_hours checkout_time window_start window_end shift_end request_hours -
     spec_overtime_hours checkout_time window_start window_end shift_end request_hours\<bar>
   \<le> max 0 (of_int (min checkout_time window_end - max shift_end window_start) / 3600000000)
        / 2251799813685248"
proof -
  define later where "later = min checkout_time window_end"
  define earlier where "earlier = max shift_end window_start"
  define h where "h = fdiv (fdiv (total_seconds later earlier) 60) 60"
  define x :: rat where "x = of_int (later - earlier) / 3600000000"
  have f: "float_overtime_hours checkout_time window_start window_end shift_end request_hours =
      min (max 0 h) request_hours"
    by (simp only: float_overtime_hours_def h_def later_def earlier_def)
  have g: "spec_overtime_hours checkout_time window_start window_end shift_end request_hours =
      min (max 0 x) request_hours"
    by (simp only: spec_overtime_hours_def x_def later_def earlier_def)
  have "\<bar>min (max 0 h) request_hours - min (max 0 x) request_hours\<bar>
      \<le> max 0 x / 2251799813685248"
  proof (cases "earlier < later")
    case True
    then have "0 < h" unfolding h_def by (rule float_hours_pos)
    moreover from True have "0 < x" by (simp add: x_def)
    moreover from True have "\<bar>h - x\<bar> \<le> x / 2251799813685248"
      unfolding h_def x_def by (rule float_hours_error)
    ultimately show ?thesis by linarith
  next
    case False
    then have "later \<le> earlier" by simp
    then have "h \<le> 0" unfolding h_def by (rule float_hours_nonpos)
    moreover from False have "x \<le> 0" by (simp add: x_def divide_le_0_iff)
    ultimately show ?thesis by simp
  qed
  then show ?thesis
    by (simp only: f g x_def later_def earlier_def)
qed

lemma overtime_in_window_value:
  assumes "sched_end_time s = Some shift_end_str"
    and "parse_hm shift_end_str = Some (eh, em)"
    and "combine today eh em = Some shift_end"
    and "otr_from_time ot = Some from_str" "from_str \<noteq> []"
    and "parse_hm from_str = Some (fh, fm)"
    and "combine today fh fm = Some window_start"
    and "otr_to_time ot = Some to_str" "to_str \<noteq> []"
    and "parse_hm to_str = Some (th, tm)"
    and "combine today th tm = Some window_end"
    and "0 \<le> otr_request_hours ot"
  shows "overtime_in_window today check_out_time s ot worked_hours daily_max =
     Some (py_round2 (float_overtime_hours check_out_time window_start window_end shift_end
             (otr_request_hours ot)))"
proof (cases "min check_out_time window_end > max shift_end window_start")
  case True
  define h where "h = fdiv (fdiv (total_seconds (min check_out_time window_end)
      (max shift_end window_start)) 60) 60"
  from True have "0 < h"
    unfolding h_def by (rule float_hours_pos)
  then have "max 0 h = h" by simp
  then have "float_overtime_hours check_out_time window_start window_end shift_end
        (otr_request_hours ot) = min h (otr_request_hours ot)"
    by (simp only: float_overtime_hours_def h_def)
  with True assms show ?thesis
    by (simp add: overtime_in_window_def truthy_def Let_def h_def)
next
  case False
  define h where "h = fdiv (fdiv (total_seconds (min check_out_time window_end)
      (max shift_end window_start)) 60) 60"
  from False have "min check_out_time window_end \<le> max shift_end window_start"
    by linarith
  then have "h \<le> 0"
    unfolding h_def by (rule float_hours_nonpos)
  then have "min (max 0 h) (otr_request_hours ot) = 0"
    using assms(12) by (simp add: max_def min_def)
  then have z: "float_overtime_hours check_out_time window_start window_end shift_end
        (otr_request_hours ot) = 0"
    by (simp only: float_overtime_hours_def h_def)
  from False assms show ?thesis
    unfolding z by (auto simp: overtime_in_window_def truthy_def Let_def py_round2_0)
qed

text \<open>
  C4, as the code has it. For the one approved overtime request of the day with a
  window, a non-negative number of requested hours, and a scheduled shift whose end
  time parses: the role's break is subtracted from the gross minutes only when the gross
  minutes reach it, worked hours are the rest in hours rounded to two decimals, and
  overtime hours are the specification's formula, computed in double arithmetic and
  rounded to two decimals.
\<close>

theorem check_out_overtime_rounded:
  assumes "filter (\<lambda>r. otr_employee_id r = emp_id employee \<and> otr_request_date r = today \<and>
                      otr_status r = APPROVED) overtime_requests = [ot]"
    and "sched_end_time s = Some shift_end_str"
    and "parse_hm shift_end_str = Some (eh, em)"
    and "combine today eh em = Some shift_end"
    and "otr_from_time ot = Some from_str" "from_str \<noteq> []"
    and "parse_hm from_str = Some (fh, fm)"
    and "combine today fh fm = Some window_start"
    and "otr_to_time ot = Some to_str" "to_str \<noteq> []"
    and "parse_hm to_str = Some (th, tm)"
    and "combine today th tm = Some window_end"
    and "0 \<le> otr_request_hours ot"
    and "role_break_minutes r = Some role_break"
  shows "check_out_attendance today employee check_in_time check_out_time (Some (s, Some r))
           overtime_requests =
     (let gross_minutes = fdiv (total_seconds check_out_time check_in_time) 60;
          break_minutes = (if gross_minutes \<ge> of_int role_break then role_break else 0)
      in Inr (py_round2 (fdiv (max 0 (fsub gross_minutes (float_of_int break_minutes))) 60),
              break_minutes,
              py_round2 (float_overtime_hours check_out_time window_start window_end shift_end
                (otr_request_hours ot))))"
  using assms(1,14)
  by (simp add: check_out_attendance_def scalar_one_or_none_def Let_def
      overtime_in_window_value [OF assms(2-13)])

lemma combine_values:
  "combine 739265 9 0 = Some 63872528400000000"
  "combine 739265 18 0 = Some 63872560800000000"
  "combine 739265 20 0 = Some 63872568000000000"
  by (simp_all add: combine_def)

text \<open>
  The claim's example: check-in 09:00, check-out 19:30, shift 09:00 to 18:00, window
  18:00 to 20:00 for 1.5 hours, break 60 minutes: worked hours 9.5, overtime hours 1.5.
\<close>

theorem check_out_overtime_rounded_witness:
  "check_out_attendance 739265 employee_7 63872528400000000 63872566200000000
     (Some (example_row 1 7 739265 ''scheduled'', Some role_60)) [ot_request (3 / 2)] =
     Inr (19 / 2, 60, 3 / 2)"
proof -
  have f: "filter (\<lambda>r. otr_employee_id r = emp_id employee_7 \<and> otr_request_date r = 739265 \<and>
                      otr_status r = APPROVED) [ot_request (3 / 2)] = [ot_request (3 / 2)]"
    by (simp add: ot_request_def employee_7_def)
  have h: "sched_end_time (example_row 1 7 739265 ''scheduled'') = Some ''18:00''"
    "otr_from_time (ot_request (3 / 2)) = Some ''18:00''" "''18:00'' \<noteq> []"
    "otr_to_time (ot_request (3 / 2)) = Some ''20:00''" "''20:00'' \<noteq> []"
    "0 \<le> otr_request_hours (ot_request (3 / 2))"
    "role_break_minutes role_60 = Some 60"
    by (simp_all add: example_row_def ot_request_def role_60_def)
  from check_out_overtime_rounded [OF f h(1) parse_1800 combine_values(2) h(2,3) parse_1800
      combine_values(2) h(4,5) parse_2000 combine_values(3) h(6,7),
      of 63872528400000000 63872566200000000]
  show ?thesis
    by (simp add: float_overtime_hours_def ot_request_def total_seconds_def fdiv_def fsub_def
        float_of_int_def td_37800 td_630 td_60 td_570 td_19_2 td_5400 td_90 td_3_2
        pr_19_2 pr_3_2)
qed

text \<open>
  The results of the code at check-outs shortly after the end of the shift, two hours
  being approved: \<^verbatim>\<open>(8.17, 60, 0.17)\<close> at 18:10:00, \<^verbatim>\<open>(8.03, 60, 0.03)\<close> at
  18:01:30, \<^verbatim>\<open>(8.07, 60, 0.07)\<close> at 18:04:30 and \<^verbatim>\<open>(8.0, 60, 0.01)\<close> at
  18:00:18.
\<close>

lemma check_out_attendance_examples:
  "check_out_attendance 739265 employee_7 63872528400000000 63872561400000000
     (Some (example_row 1 7 739265 ''scheduled'', Some role_60)) [ot_request 2] =
     Inr (to_double (817 / 100), 60, to_double (17 / 100))"
  "check_out_attendance 739265 employee_7 63872528400000000 63872560890000000
     (Some (example_row 1 7 739265 ''scheduled'', Some role_60)) [ot_request 2] =
     Inr (to_double (803 / 100), 60, to_double (3 / 100))"
  "check_out_attendance 739265 employee_7 63872528400000000 63872561070000000
     (Some (example_row 1 7 739265 ''scheduled'', Some role_60)) [ot_request 2] =
     Inr (to_double (807 / 100), 60, to_double (7 / 100))"
  "check_out_attendance 739265 employee_7 63872528400000000 63872560818000000
     (Some (example_row 1 7 739265 ''scheduled'', Some role_60)) [ot_request 2] =
     Inr (8, 60, to_double (1 / 100))"
  by (simp_all add: check_out_attendance_def scalar_one_or_none_def ot_request_def
      employee_7_def role_60_def example_row_def total_seconds_def overtime_in_window_def
      truthy_def parse_1800 parse_2000 combine_def Let_def fdiv_def fsub_def float_of_int_def
      td_33000 td_550 td_60 td_90 td_3_2 td_490 td_49_6 td_817_100 td_600 td_10 td_1_6 td_17_100 td_32490
      td_1083_2 td_963_2 td_321_40 td_803_100 td_1_40 td_3_100 td_32670 td_1089_2 td_969_2
      td_323_40 td_807_100 td_270 td_9_2 td_3_40 td_7_100 td_32418 td_5403_10
      td_2112381739283251_4398046511104 td_2112381739283251_263882790666240 td_8 td_18 td_3_10
      td_1080863910568919_216172782113783808 td_1_100
      pr_4597424619607381_562949953421312 pr_6004799503160661_36028797018963968
      pr_4517673376206029_562949953421312 pr_3602879701896397_144115188075855872
      pr_2272910436938547_281474976710656 pr_5404319552844595_72057594037927936
      pr_2253207188568801_281474976710656 pr_5764607523034235_1152921504606846976)

text \<open>
  The formula without rounding fails: with a check-out at 18:10 and two requested hours
  the overlap is ten minutes, a sixth of an hour, and the attendance row gets the double
  \<^verbatim>\<open>0.17\<close>.
\<close>

theorem check_out_overtime_unrounded_counterexample:
  "check_out_attendance 739265 employee_7 63872528400000000 63872561400000000
     (Some (example_row 1 7 739265 ''scheduled'', Some role_60)) [ot_request 2] =
     Inr (to_double (817 / 100), 60, to_double (17 / 100)) \<and>
   spec_overtime_hours 63872561400000000 63872560800000000 63872568000000000
     63872560800000000 2 = 1 / 6 \<and>
   to_double (17 / 100) \<noteq> 1 / 6"
proof -
  have b: "spec_overtime_hours 63872561400000000 63872560800000000 63872568000000000
     63872560800000000 2 = 1 / 6"
    by (simp add: spec_overtime_hours_def)
  have c: "to_double (17 / 100) \<noteq> 1 / 6"
    by (simp add: td_17_100)
  from check_out_attendance_examples(1) b c show ?thesis by simp
qed

end
